theory Spec2Isabelle
  imports Main "HOL-Library.AList"
begin

section \<open>JavaScript values\<close>

text \<open>
  The fragment of JavaScript values the modelled code inspects. Numbers are restricted
  to integers; objects are property lists in insertion order.
\<close>

datatype jsval =
    Undefined
  | Null
  | Bool bool
  | Num int
  | Str string
  | Arr "jsval list"
  | Obj "(string \<times> jsval) list"

text \<open>Truthiness, as used by \<^verbatim>\<open>if (x)\<close>, \<^verbatim>\<open>!x\<close> and \<^verbatim>\<open>x && y\<close>.\<close>

fun truthy :: "jsval \<Rightarrow> bool" where
  "truthy Undefined = False"
| "truthy Null = False"
| "truthy (Bool b) = b"
| "truthy (Num n) = (n \<noteq> 0)"
| "truthy (Str s) = (s \<noteq> [])"
| "truthy (Arr xs) = True"
| "truthy (Obj ps) = True"

text \<open>\<^verbatim>\<open>Array.isArray(x)\<close> and \<^verbatim>\<open>typeof x === 'string'\<close>.\<close>

fun isArray :: "jsval \<Rightarrow> bool" where
  "isArray (Arr xs) = True"
| "isArray v = False"

fun isString :: "jsval \<Rightarrow> bool" where
  "isString (Str s) = True"
| "isString v = False"

text \<open>Decimal digits of a natural number, for the string conversion of numbers.\<close>

function show_nat :: "nat \<Rightarrow> string" where
  "show_nat n =
     (if n < 10 then [char_of (48 + n)]
      else show_nat (n div 10) @ [char_of (48 + n mod 10)])"
  by pat_completeness auto
termination
  by (relation "measure (\<lambda>n. n)") auto

definition show_int :: "int \<Rightarrow> string" where
  "show_int i = (if i < 0 then CHR ''-'' # show_nat (nat (- i)) else show_nat (nat i))"

fun join_comma :: "string list \<Rightarrow> string" where
  "join_comma [] = []"
| "join_comma [s] = s"
| "join_comma (s # t # ss) = s @ '','' @ join_comma (t # ss)"

text \<open>
  The string conversion \<^verbatim>\<open>'' + x\<close> (also used for property keys and template
  literals). An array joins its elements with commas, \<^verbatim>\<open>null\<close> and
  \<^verbatim>\<open>undefined\<close> elements giving the empty string; a plain object gives
  \<^verbatim>\<open>[object Object]\<close>.
\<close>

primrec js_toString :: "jsval \<Rightarrow> string" where
  "js_toString Undefined = ''undefined''"
| "js_toString Null = ''null''"
| "js_toString (Bool b) = (if b then ''true'' else ''false'')"
| "js_toString (Num n) = show_int n"
| "js_toString (Str s) = s"
| "js_toString (Arr xs) =
     join_comma (map (\<lambda>(x, s). if x = Undefined \<or> x = Null then [] else s)
                     (zip xs (map js_toString xs)))"
| "js_toString (Obj ps) = ''[object Object]''"

section \<open>The \<^verbatim>\<open>escape-html\<close> package\<close>

text \<open>
  \<^verbatim>\<open>escapeHTML\<close> is the npm package \<^verbatim>\<open>escape-html\<close>: it converts its argument
  to a string and replaces the five characters \<^verbatim>\<open>" & ' < >\<close> by their entities.
\<close>

fun escapeChar :: "char \<Rightarrow> string" where
  "escapeChar c =
     (if c = CHR 0x22 then ''&quot;''
      else if c = CHR ''&'' then ''&amp;''
      else if c = CHR 0x27 then ''&#39;''
      else if c = CHR ''<'' then ''&lt;''
      else if c = CHR ''>'' then ''&gt;''
      else [c])"

definition escapeString :: "string \<Rightarrow> string" where
  "escapeString s = concat (map escapeChar s)"

definition escapeHTML :: "jsval \<Rightarrow> jsval" where
  "escapeHTML v = Str (escapeString (js_toString v))"

text \<open>The characters that can open or close markup or an attribute value.\<close>

definition markupChars :: "char set" where
  "markupChars = {CHR 0x22, CHR 0x27, CHR ''<'', CHR ''>''}"

section \<open>Error messages (\<^verbatim>\<open>ErrorMessage\<close>)\<close>

record ErrorMessage =
  msgKey :: jsval
  msgParams :: "jsval list"
  originalError :: jsval

text \<open>
  Values that can be thrown or passed as a rejection reason: an instance of the class
  \<^verbatim>\<open>ErrorMessage\<close>, an error object of another class (constructor name and message,
  without a \<^verbatim>\<open>toEscapedArray\<close> method), or any plain value. A plain object is its
  list of own properties, none of which is a function.
\<close>

datatype thrown =
    EMsg ErrorMessage
  | ErrObj string string
  | Plain jsval

text \<open>
  The constructor. \<^verbatim>\<open>forEach\<close> throws at the first element that is not a string, so
  the check is a scan of the list.
\<close>

definition ErrorMessage_new :: "jsval \<Rightarrow> jsval \<Rightarrow> jsval \<Rightarrow> thrown + ErrorMessage" where
  "ErrorMessage_new key params original =
     (if \<not> truthy key then
        Inl (ErrObj ''Error'' ''Must provide at least a message key for the error.'')
      else if truthy params \<and> \<not> isArray params then
        Inl (ErrObj ''Error'' ''Message parameters must be provided as an array.'')
      else
        let ps = (if \<not> truthy params then [] else (case params of Arr xs \<Rightarrow> xs | _ \<Rightarrow> []))
        in if \<exists>ele \<in> set ps. \<not> isString ele then
             Inl (ErrObj ''Error'' ''Message parameters must be strings.'')
           else
             Inr \<lparr>msgKey = key, msgParams = ps, originalError = original\<rparr>)"

definition toArray :: "ErrorMessage \<Rightarrow> jsval list" where
  "toArray e = [msgKey e] @ msgParams e"

definition toEscapedArray :: "ErrorMessage \<Rightarrow> jsval list" where
  "toEscapedArray e = [msgKey e] @ map escapeHTML (msgParams e)"

section \<open>Search (\<^verbatim>\<open>search.js\<close>)\<close>

text \<open>All supported stemmers, in the order of the source table.\<close>

definition analyzers :: "(string \<times> string) list" where
  "analyzers =
     [(''ar'', ''arabic''), (''hy'', ''armenian''), (''eu'', ''basque''),
      (''pt'', ''brazilian''), (''bg'', ''bulgarian''), (''ca'', ''catalan''),
      (''zh'', ''cjk''), (''zh-Hant'', ''cjk''), (''cs'', ''czech''),
      (''da'', ''danish''), (''nl'', ''dutch''), (''en'', ''english''),
      (''fi'', ''finnish''), (''fr'', ''french''), (''gl'', ''galician''),
      (''de'', ''german''), (''el'', ''greek''), (''hi'', ''hindi''),
      (''hu'', ''hungarian''), (''id'', ''indonesian''), (''ga'', ''irish''),
      (''it'', ''italian''), (''lv'', ''latvian''), (''lt'', ''lithuanian''),
      (''no'', ''norwegian''), (''fa'', ''persian''), (''pt-PT'', ''portuguese''),
      (''ro'', ''romanian''), (''ru'', ''russian''), (''ckb'', ''sorani''),
      (''es'', ''spanish''), (''sv'', ''swedish''), (''tr'', ''turkish''),
      (''th'', ''thai'')]"

text \<open>Property access \<^verbatim>\<open>o[k]\<close> and the own keys of an object.\<close>

fun js_get :: "jsval \<Rightarrow> string \<Rightarrow> jsval" where
  "js_get (Obj ps) k = (case map_of ps k of Some v \<Rightarrow> v | None \<Rightarrow> Undefined)"
| "js_get v k = Undefined"

fun js_keys :: "jsval \<Rightarrow> string list" where
  "js_keys (Obj ps) = map fst ps"
| "js_keys v = []"

record highlight_options =
  pre_tags :: "string list"
  post_tags :: "string list"
  highlight_fields :: "(string \<times> jsval) list"

record search_options =
  search_fields :: "string list"
  search_highlight :: highlight_options

text \<open>
  \<^verbatim>\<open>getSearchOptions(type, fieldPrefix, lang)\<close>. \<^verbatim>\<open>languages.getFallbacks\<close>
  belongs to the locales module, which is not among the sources; it is the parameter
  \<open>getFallbacks\<close>.
\<close>

definition getSearchOptions ::
  "(string \<Rightarrow> string list) \<Rightarrow> string \<Rightarrow> string \<Rightarrow> string \<Rightarrow> search_options" where
  "getSearchOptions getFallbacks type fieldPrefix lang =
     (let langs0 = getFallbacks lang;
          langs = (if lang \<noteq> ''en'' then lang # langs0 else langs0);
          fs = map (\<lambda>l. fieldPrefix @ ''.'' @ l @ ''*'') langs;
          hl = \<lparr>pre_tags = [''<span class='' @ [CHR 0x22] @ ''search-highlight'' @ [CHR 0x22] @ ''>''],
                post_tags = [''</span>''],
                highlight_fields =
                  foldl (\<lambda>acc l. AList.update (fieldPrefix @ ''.'' @ l) (Obj []) acc) [] langs\<rparr>
      in \<lparr>search_fields = fs, search_highlight = hl\<rparr>)"

text \<open>Multilingual strings: language code to text, and language code to a list of texts.\<close>

type_synonym mlString = "(string \<times> string) list"
type_synonym mlArray = "(string \<times> string list) list"

record review =
  review_id :: jsval
  thingID :: jsval
  review_createdOn :: jsval
  review_title :: "mlString option"
  review_html :: "mlString option"
  starRating :: jsval

text \<open>
  The field \<^verbatim>\<open>otherURLs\<close> of a thing holds an array. \<^verbatim>\<open>sendThing\<close> stores the
  very array of \<^verbatim>\<open>urls\<close> there, so the field is either that shared array, which
  follows every later change of \<^verbatim>\<open>urls\<close>, or an array of its own.
\<close>

datatype url_array = SameAsUrls | OwnArray "string list"

record thing =
  thing_id :: jsval
  createdOn :: jsval
  label :: "mlString option"
  aliases :: "mlArray option"
  description :: "mlString option"
  urls :: "string list option"
  urlID :: jsval
  mainURL :: "string option"
  otherURLs :: "url_array option"
  userCanEdit :: bool

text \<open>The contents of \<^verbatim>\<open>thing.otherURLs\<close>, read through the shared array.\<close>

definition otherURLsValue :: "thing \<Rightarrow> string list option" where
  "otherURLsValue t =
     (case otherURLs t of
        None \<Rightarrow> None
      | Some SameAsUrls \<Rightarrow> urls t
      | Some (OwnArray l) \<Rightarrow> Some l)"

record review_body =
  rb_createdOn :: jsval
  rb_title :: "mlString option"
  rb_text :: "mlString option"
  rb_starRating :: jsval

record thing_body =
  tb_createdOn :: jsval
  tb_label :: "mlString option"
  tb_aliases :: "mlArray option"
  tb_description :: "mlString option"
  tb_urls :: "string list option"
  tb_urlID :: jsval

datatype index_body = ReviewBody review_body | ThingBody thing_body

record index_request =
  rq_index :: string
  rq_type :: string
  rq_id :: jsval
  rq_parent :: "jsval option"
  rq_body :: index_body

section \<open>Requests, responses and the diagnostic log\<close>

record user =
  displayName :: string
  suppressedNotices :: "string list option"

record request =
  req_user :: "user option"
  req_body :: "(string \<times> jsval) list"
  req_method :: string
  req_params_id :: string
  req_locale :: string
  req_flash :: "(string \<times> string list) list"

record log_entry =
  log_context :: "string option"
  log_req :: "request option"
  log_error :: thrown

text \<open>
  Modelled from the spec: \<^verbatim>\<open>debug.error\<close> of the module \<^verbatim>\<open>util/debug\<close> is not
  among the sources. The specification says that failures are sent to a diagnostic log
  and never thrown: the log is the list of the arguments of its calls, and each call
  returns.
\<close>

definition debug_error :: "log_entry \<Rightarrow> log_entry list \<Rightarrow> log_entry list" where
  "debug_error entry lg = lg @ [entry]"

text \<open>
  The session flash store (\<^verbatim>\<open>req.flash\<close>): with a message it appends to the list
  under the key, without one it returns the list and removes it.
\<close>

definition flash_push :: "string \<Rightarrow> string \<Rightarrow> request \<Rightarrow> request" where
  "flash_push k m rq =
     rq\<lparr>req_flash :=
          AList.update k ((case map_of (req_flash rq) k of Some ms \<Rightarrow> ms | None \<Rightarrow> []) @ [m])
            (req_flash rq)\<rparr>"

definition flash_take :: "string \<Rightarrow> request \<Rightarrow> string list \<times> request" where
  "flash_take k rq =
     ((case map_of (req_flash rq) k of Some ms \<Rightarrow> ms | None \<Rightarrow> []),
      rq\<lparr>req_flash := AList.delete k (req_flash rq)\<rparr>)"

section \<open>Indexing (\<^verbatim>\<open>search.js\<close>, continued)\<close>

text \<open>
  \<^verbatim>\<open>indexReview\<close> and \<^verbatim>\<open>indexThing\<close>. The search client and the helpers of
  \<^verbatim>\<open>ml-string\<close> are parameters; a promise is its outcome, \<open>Inl\<close> a rejection. The
  \<^verbatim>\<open>catch\<close> handler returns what \<^verbatim>\<open>debug.error\<close> returns, so the promise is then
  fulfilled with \<^verbatim>\<open>undefined\<close>.
\<close>

definition indexReview_request ::
  "(mlString option \<Rightarrow> mlString option) \<Rightarrow> review \<Rightarrow> index_request" where
  "indexReview_request stripHTML rv =
     \<lparr>rq_index = ''libreviews'',
      rq_type = ''reviews'',
      rq_id = review_id rv,
      rq_parent = Some (thingID rv),
      rq_body = ReviewBody
        \<lparr>rb_createdOn = review_createdOn rv,
         rb_title = stripHTML (review_title rv),
         rb_text = stripHTML (review_html rv),
         rb_starRating = starRating rv\<rparr>\<rparr>"

definition indexReview ::
  "(index_request \<Rightarrow> thrown + jsval) \<Rightarrow> (mlString option \<Rightarrow> mlString option) \<Rightarrow>
   review \<Rightarrow> log_entry list \<Rightarrow> (thrown + jsval) \<times> log_entry list" where
  "indexReview client_index stripHTML rv lg =
     (case client_index (indexReview_request stripHTML rv) of
        Inr v \<Rightarrow> (Inr v, lg)
      | Inl error \<Rightarrow>
          (Inr Undefined,
           debug_error \<lparr>log_context = None, log_req = None, log_error = error\<rparr> lg))"

definition indexThing_request ::
  "(mlString option \<Rightarrow> mlString option) \<Rightarrow> (mlArray option \<Rightarrow> mlArray option) \<Rightarrow>
   thing \<Rightarrow> index_request" where
  "indexThing_request stripHTML stripHTMLFromArray t =
     \<lparr>rq_index = ''libreviews'',
      rq_type = ''things'',
      rq_id = thing_id t,
      rq_parent = None,
      rq_body = ThingBody
        \<lparr>tb_createdOn = createdOn t,
         tb_label = stripHTML (label t),
         tb_aliases = stripHTMLFromArray (aliases t),
         tb_description = stripHTML (description t),
         tb_urls = urls t,
         tb_urlID = urlID t\<rparr>\<rparr>"

definition indexThing ::
  "(index_request \<Rightarrow> thrown + jsval) \<Rightarrow> (mlString option \<Rightarrow> mlString option) \<Rightarrow>
   (mlArray option \<Rightarrow> mlArray option) \<Rightarrow> thing \<Rightarrow> log_entry list \<Rightarrow>
   (thrown + jsval) \<times> log_entry list" where
  "indexThing client_index stripHTML stripHTMLFromArray t lg =
     (case client_index (indexThing_request stripHTML stripHTMLFromArray t) of
        Inr v \<Rightarrow> (Inr v, lg)
      | Inl error \<Rightarrow>
          (Inr Undefined,
           debug_error \<lparr>log_context = None, log_req = None, log_error = error\<rparr> lg))"

text \<open>
  \<^verbatim>\<open>getMultilingualTextProperties(completionMapping)\<close>: the loop over the keys of
  \<open>analyzers\<close> assigns one property per key.
\<close>

definition languageProperty :: "bool \<Rightarrow> string \<Rightarrow> jsval" where
  "languageProperty completionMapping lang =
     Obj [(''type'', Str ''text''),
          (''index_options'', Str ''offsets''),
          (''fields'', Obj
             ([(''processed'', Obj
                  [(''type'', Str ''text''),
                   (''analyzer'', js_get (Obj (map (\<lambda>(k, a). (k, Str a)) analyzers)) lang),
                   (''index_options'', Str ''offsets'')])]
              @ (if completionMapping then
                   [(''completion'', Obj
                       [(''type'', Str ''completion''),
                        (''analyzer'', Str ''label''),
                        (''max_input_length'', Num 256)])]
                 else [])))]"

definition getMultilingualTextProperties :: "bool \<Rightarrow> jsval" where
  "getMultilingualTextProperties completionMapping =
     Obj [(''properties'', Obj
            (foldl (\<lambda>props lang. AList.update lang (languageProperty completionMapping lang) props)
               [] (map fst analyzers)))]"

definition getURLProperties :: jsval where
  "getURLProperties =
     Obj [(''type'', Str ''text''),
          (''fields'', Obj
             [(''raw'', Obj [(''type'', Str ''keyword'')]),
              (''simple'', Obj [(''type'', Str ''text''), (''analyzer'', Str ''simple'')])])]"

text \<open>The request that \<^verbatim>\<open>createIndices\<close> passes to \<^verbatim>\<open>client.indices.create\<close>.\<close>

definition createIndices_request :: jsval where
  "createIndices_request =
     Obj [(''index'', Str ''libreviews''),
          (''body'', Obj
             [(''settings'', Obj
                 [(''analysis'', Obj
                     [(''tokenizer'', Obj
                         [(''whitespace'', Obj [(''type'', Str ''whitespace'')])]),
                      (''analyzer'', Obj
                         [(''label'', Obj
                             [(''type'', Str ''custom''),
                              (''tokenizer'', Str ''whitespace''),
                              (''filter'', Arr [Str ''trim'', Str ''lowercase''])])])])]),
              (''mappings'', Obj
                 [(''reviews'', Obj
                     [(''_parent'', Obj [(''type'', Str ''things'')]),
                      (''properties'', Obj
                         [(''createdOn'', Obj [(''type'', Str ''date'')]),
                          (''text'', getMultilingualTextProperties False),
                          (''title'', getMultilingualTextProperties False)])]),
                  (''things'', Obj
                     [(''properties'', Obj
                         [(''createdOn'', Obj [(''type'', Str ''date'')]),
                          (''urls'', getURLProperties),
                          (''label'', getMultilingualTextProperties True),
                          (''aliases'', getMultilingualTextProperties True),
                          (''description'', getMultilingualTextProperties False)])])])])]"

definition createIndices ::
  "(jsval \<Rightarrow> thrown + jsval) \<Rightarrow> log_entry list \<Rightarrow> (thrown + jsval) \<times> log_entry list" where
  "createIndices indices_create lg =
     (case indices_create createIndices_request of
        Inr v \<Rightarrow> (Inr v, lg)
      | Inl error \<Rightarrow>
          (Inr Undefined,
           debug_error \<lparr>log_context = None, log_req = None, log_error = error\<rparr> lg))"

section \<open>Flashing errors (\<^verbatim>\<open>routes/helpers/flash-error.js\<close>)\<close>

text \<open>
  The value of \<^verbatim>\<open>e.constructor\<close>: the class of an instance, or the own property
  \<^verbatim>\<open>constructor\<close> of a plain object, which hides the inherited one. \<^verbatim>\<open>undefined\<close>
  and \<^verbatim>\<open>null\<close> have no properties; the guard on the value itself keeps the code from
  reading one.
\<close>

datatype constructor_value = Class string | OwnProperty jsval

fun constructorOf :: "thrown \<Rightarrow> constructor_value option" where
  "constructorOf (EMsg m) = Some (Class ''ErrorMessage'')"
| "constructorOf (ErrObj n msg) = Some (Class n)"
| "constructorOf (Plain Undefined) = None"
| "constructorOf (Plain Null) = None"
| "constructorOf (Plain (Bool b)) = Some (Class ''Boolean'')"
| "constructorOf (Plain (Num n)) = Some (Class ''Number'')"
| "constructorOf (Plain (Str s)) = Some (Class ''String'')"
| "constructorOf (Plain (Arr xs)) = Some (Class ''Array'')"
| "constructorOf (Plain (Obj ps)) =
     (case map_of ps ''constructor'' of
        Some c \<Rightarrow> Some (OwnProperty c)
      | None \<Rightarrow> Some (Class ''Object''))"

text \<open>A class is a function and truthy; its \<^verbatim>\<open>name\<close> is the class name.\<close>

fun truthyConstructor :: "constructor_value \<Rightarrow> bool" where
  "truthyConstructor (Class n) = True"
| "truthyConstructor (OwnProperty c) = truthy c"

fun constructorNameOf :: "constructor_value \<Rightarrow> jsval" where
  "constructorNameOf (Class n) = Str n"
| "constructorNameOf (OwnProperty c) = js_get c ''name''"

fun truthyThrown :: "thrown \<Rightarrow> bool" where
  "truthyThrown (EMsg m) = True"
| "truthyThrown (ErrObj n msg) = True"
| "truthyThrown (Plain v) = truthy v"

text \<open>
  Whether an object or array has a primitive value. The values modelled here hold no
  functions, so an own property \<^verbatim>\<open>toString\<close> hides the inherited method with
  something that cannot be called, and the conversion throws.
\<close>

primrec convertible :: "jsval \<Rightarrow> bool" where
  "convertible Undefined = True"
| "convertible Null = True"
| "convertible (Bool b) = True"
| "convertible (Num n) = True"
| "convertible (Str s) = True"
| "convertible (Arr xs) = list_all (\<lambda>b. b) (map convertible xs)"
| "convertible (Obj ps) = (''toString'' \<notin> fst ` set ps)"

text \<open>
  The comparison \<^verbatim>\<open>v == 'ErrorMessage'\<close>: a string is compared as it is, an array or
  object through its primitive value; a number or boolean is compared with the number
  that the string stands for, which is none; \<^verbatim>\<open>undefined\<close> and \<^verbatim>\<open>null\<close> equal
  no string.
\<close>

fun equalsErrorMessage :: "jsval \<Rightarrow> thrown + bool" where
  "equalsErrorMessage (Str s) = Inr (s = ''ErrorMessage'')"
| "equalsErrorMessage (Arr xs) =
     (if convertible (Arr xs) then Inr (js_toString (Arr xs) = ''ErrorMessage'')
      else Inl (ErrObj ''TypeError'' ''Cannot convert object to primitive value''))"
| "equalsErrorMessage (Obj ps) =
     (if convertible (Obj ps) then Inr (js_toString (Obj ps) = ''ErrorMessage'')
      else Inl (ErrObj ''TypeError'' ''Cannot convert object to primitive value''))"
| "equalsErrorMessage v = Inr False"

text \<open>
  The test \<^verbatim>\<open>errorMessage && errorMessage.constructor &&
  errorMessage.constructor.name == 'ErrorMessage'\<close>, from left to right.
\<close>

definition isErrorMessageKind :: "thrown \<Rightarrow> thrown + bool" where
  "isErrorMessageKind e =
     (if \<not> truthyThrown e then Inr False
      else case constructorOf e of
             None \<Rightarrow> Inr False
           | Some c \<Rightarrow>
               if \<not> truthyConstructor c then Inr False
               else equalsErrorMessage (constructorNameOf c))"

text \<open>
  \<^verbatim>\<open>flashErrorMessage(req, errorMessage, context)\<close>. \<open>translate\<close> is \<^verbatim>\<open>req.__\<close>
  applied to an argument list. A value that passes the test without being an
  \<^verbatim>\<open>ErrorMessage\<close> has no method \<^verbatim>\<open>toEscapedArray\<close>, and the call throws before
  anything is flashed.
\<close>

definition flashErrorMessage ::
  "(jsval list \<Rightarrow> string) \<Rightarrow> request \<Rightarrow> thrown \<Rightarrow> string \<Rightarrow> log_entry list \<Rightarrow>
   thrown + (request \<times> log_entry list)" where
  "flashErrorMessage translate rq errorMessage context lg =
     (case isErrorMessageKind errorMessage of
        Inl exn \<Rightarrow> Inl exn
      | Inr True \<Rightarrow>
          (case errorMessage of
             EMsg m \<Rightarrow> Inr (flash_push ''errors'' (translate (toEscapedArray m)) rq, lg)
           | _ \<Rightarrow> Inl (ErrObj ''TypeError'' ''errorMessage.toEscapedArray is not a function''))
      | Inr False \<Rightarrow>
          (let rq1 = flash_push ''errors'' (translate [Str ''unknown error'']) rq
           in Inr (rq1,
                debug_error
                  \<lparr>log_context = Some context, log_req = Some rq1, log_error = errorMessage\<rparr>
                  lg)))"

section \<open>Rendering (\<^verbatim>\<open>routes/helpers/render.js\<close>)\<close>

record edit_options =
  edit_label :: bool
  edit_titleKey :: string

record extra_vars =
  deferHeader :: "bool option"
  titleKey :: "string option"
  var_thing :: "thing option"
  var_edit :: "edit_options option"
  pageErrors :: "string list option"
  showLanguageNotice :: "bool option"

text \<open>
  The variables handed to the view. The configuration script, the script list, the
  language table and the CSRF token are left out: no operation modelled here reads them.
\<close>

record page_vars =
  page_extra :: extra_vars
  page_user :: "user option"
  currentLanguage :: "string \<times> string \<times> string"
  siteMessages :: "string list"
  siteErrors :: "string list"

record response =
  res_status :: nat
  res_rendered :: "(string \<times> page_vars) option"
  res_redirect :: "string option"

datatype db_event = NewRevisionCall thing | SaveCall thing

text \<open>
  What a route handler can change: the request (its flash store), the response, the
  diagnostic log, the calls made to the document store, and the exceptions that leave a
  handler or a promise chain uncaught.
\<close>

record world =
  w_req :: request
  w_res :: response
  w_log :: "log_entry list"
  w_db :: "db_event list"
  w_uncaught :: "thrown list"

text \<open>
  The collaborators that are not among the sources: the language table of the locales
  module (language key to message key), \<^verbatim>\<open>req.__\<close>, the \<^verbatim>\<open>Thing\<close> model and the
  resource error handler.
\<close>

record env =
  languages_getAll :: "(string \<times> string) list"
  translate :: "jsval list \<Rightarrow> string"
  getNotStaleOrDeleted :: "string \<Rightarrow> thrown + thing"
  populateUserInfo :: "thing \<Rightarrow> user option \<Rightarrow> thing"
  newRevision :: "thing \<Rightarrow> user option \<Rightarrow> thrown + thing"
  save :: "thing \<Rightarrow> thrown + thing"
  resolveError :: "thrown \<Rightarrow> thrown"
  resourceErrorHandler :: "string \<Rightarrow> thrown \<Rightarrow> world \<Rightarrow> world"

text \<open>
  \<^verbatim>\<open>render.template(req, res, view, extraVars)\<close>: reading \<^verbatim>\<open>messageKey\<close> of the
  entry of the request's locale throws when the locale has no entry; this happens before
  the flash store is read and before \<^verbatim>\<open>res.render\<close>.
\<close>

definition render_template :: "env \<Rightarrow> string \<Rightarrow> extra_vars \<Rightarrow> world \<Rightarrow> thrown option \<times> world" where
  "render_template ev view extraVars w =
     (let rq = w_req w in
      case map_of (languages_getAll ev) (req_locale rq) of
        None \<Rightarrow>
          (Some (ErrObj ''TypeError'' ''Cannot read property messageKey of undefined''), w)
      | Some messageKey \<Rightarrow>
          (let (sm, rq1) = flash_take ''siteMessages'' rq;
               (se, rq2) = flash_take ''siteErrors'' rq1;
               vars = \<lparr>page_extra = extraVars,
                       page_user = req_user rq,
                       currentLanguage =
                         (req_locale rq, messageKey, translate ev [Str messageKey]),
                       siteMessages = sm,
                       siteErrors = se\<rparr>
           in (None, w\<lparr>w_req := rq2,
                        w_res := (w_res w)\<lparr>res_rendered := Some (view, vars)\<rparr>\<rparr>)))"

definition signinRequired :: "env \<Rightarrow> extra_vars \<Rightarrow> world \<Rightarrow> thrown option \<times> world" where
  "signinRequired ev extraVars w = render_template ev ''signin-required'' extraVars w"

definition permissionError :: "env \<Rightarrow> extra_vars \<Rightarrow> world \<Rightarrow> thrown option \<times> world" where
  "permissionError ev extraVars w =
     render_template ev ''permission-error'' extraVars
       (w\<lparr>w_res := (w_res w)\<lparr>res_status := 403\<rparr>\<rparr>)"

definition resourceError :: "env \<Rightarrow> extra_vars \<Rightarrow> world \<Rightarrow> thrown option \<times> world" where
  "resourceError ev extraVars w = render_template ev ''resource-error'' extraVars w"

section \<open>Thing routes (\<^verbatim>\<open>routes/things.js\<close>)\<close>

definition no_extra_vars :: extra_vars where
  "no_extra_vars =
     \<lparr>deferHeader = None, titleKey = None, var_thing = None, var_edit = None,
      pageErrors = None, showLanguageNotice = None\<rparr>"

definition isSpace :: "char \<Rightarrow> bool" where
  "isSpace c = (c \<in> {CHR '' '', CHR 0x09, CHR 0x0A, CHR 0x0B, CHR 0x0C, CHR 0x0D})"

text \<open>\<^verbatim>\<open>String.prototype.trim\<close>, on ASCII white space.\<close>

definition trim :: "string \<Rightarrow> string" where
  "trim s = rev (dropWhile isSpace (rev (dropWhile isSpace s)))"

text \<open>
  \<^verbatim>\<open>sendThing(req, res, thing, edit)\<close>. The thing is changed in place, so the changed
  thing is part of the result. \<^verbatim>\<open>shift\<close> removes the first URL from the array of
  \<^verbatim>\<open>urls\<close> itself, and \<^verbatim>\<open>otherURLs\<close> receives that array, not a copy. Reading \<^verbatim>\<open>user.suppressedNotices\<close> throws when there
  is no user, after the thing has been changed.
\<close>

definition sendThing ::
  "env \<Rightarrow> thing \<Rightarrow> edit_options option \<Rightarrow> world \<Rightarrow> thrown option \<times> thing \<times> world" where
  "sendThing ev t edit w =
     (let (pe, rq1) = flash_take ''pageErrors'' (w_req w);
          w1 = w\<lparr>w_req := rq1\<rparr>;
          usr = req_user rq1;
          t1 = (case urls t of
                  Some (u # us) \<Rightarrow>
                    (let t' = t\<lparr>mainURL := Some u, urls := Some us\<rparr>
                     in if us \<noteq> [] then t'\<lparr>otherURLs := Some SameAsUrls\<rparr> else t')
                | _ \<Rightarrow> t)
      in if edit \<noteq> None \<and> req_method rq1 = ''GET'' \<and> usr = None then
           (Some (ErrObj ''TypeError'' ''Cannot read property suppressedNotices of undefined''),
            t1, w1)
         else
           (let sln = (edit \<noteq> None \<and> req_method rq1 = ''GET'' \<and>
                       (case usr of
                          None \<Rightarrow> False
                        | Some u \<Rightarrow>
                            (case suppressedNotices u of
                               None \<Rightarrow> True
                             | Some ns \<Rightarrow> ''language-notice-thing'' \<notin> set ns)));
                (exn, w2) =
                  render_template ev ''thing''
                    \<lparr>deferHeader = Some (edit \<noteq> None),
                     titleKey = map_option edit_titleKey edit,
                     var_thing = Some t1,
                     var_edit = edit,
                     pageErrors = Some pe,
                     showLanguageNotice = Some sln\<rparr> w1
            in (exn, t1, w2)))"

text \<open>
  An exception inside the \<^verbatim>\<open>then\<close> callback of the lookup rejects the chain and
  reaches the resource error handler.
\<close>

definition toResourceHandler :: "env \<Rightarrow> string \<Rightarrow> thrown option \<times> world \<Rightarrow> world" where
  "toResourceHandler ev ident r =
     (case r of (None, w) \<Rightarrow> w | (Some e, w) \<Rightarrow> resourceErrorHandler ev ident e w)"

definition get_thing :: "env \<Rightarrow> world \<Rightarrow> world" where
  "get_thing ev w =
     (let ident = trim (req_params_id (w_req w)) in
      case getNotStaleOrDeleted ev ident of
        Inl err \<Rightarrow> resourceErrorHandler ev ident err w
      | Inr t0 \<Rightarrow>
          (let t = populateUserInfo ev t0 (req_user (w_req w));
               (exn, t1, w1) = sendThing ev t None w
           in toResourceHandler ev ident (exn, w1)))"

definition get_edit_label :: "env \<Rightarrow> world \<Rightarrow> world" where
  "get_edit_label ev w =
     (if req_user (w_req w) = None then
        (case signinRequired ev (no_extra_vars\<lparr>titleKey := Some ''edit label''\<rparr>) w of
           (None, w1) \<Rightarrow> w1
         | (Some e, w1) \<Rightarrow> w1\<lparr>w_uncaught := w_uncaught w1 @ [e]\<rparr>)
      else
        (let ident = trim (req_params_id (w_req w)) in
         case getNotStaleOrDeleted ev ident of
           Inl err \<Rightarrow> resourceErrorHandler ev ident err w
         | Inr t0 \<Rightarrow>
             (let t = populateUserInfo ev t0 (req_user (w_req w)) in
              if \<not> userCanEdit t then
                toResourceHandler ev ident
                  (permissionError ev (no_extra_vars\<lparr>titleKey := Some ''edit label''\<rparr>) w)
              else
                (let (exn, t1, w1) =
                       sendThing ev t
                         (Some \<lparr>edit_label = True, edit_titleKey = ''edit label''\<rparr>) w
                 in toResourceHandler ev ident (exn, w1)))))"

text \<open>
  The two \<^verbatim>\<open>catch\<close> callbacks of the POST route: flash the error, then send the
  thing. Neither chain is returned to the enclosing callback, so an exception in the
  callback stays uncaught.
\<close>

definition flashAndSend :: "env \<Rightarrow> thrown \<Rightarrow> string \<Rightarrow> thing \<Rightarrow> world \<Rightarrow> world" where
  "flashAndSend ev err context t w =
     (case flashErrorMessage (translate ev) (w_req w) err context (w_log w) of
        Inl e \<Rightarrow> w\<lparr>w_uncaught := w_uncaught w @ [e]\<rparr>
      | Inr (rq1, lg1) \<Rightarrow>
          (let (exn, t1, w1) = sendThing ev t None (w\<lparr>w_req := rq1, w_log := lg1\<rparr>)
           in case exn of
                None \<Rightarrow> w1
              | Some e \<Rightarrow> w1\<lparr>w_uncaught := w_uncaught w1 @ [e]\<rparr>))"

text \<open>
  The label assignment of the POST route: an absent label becomes the empty object, then
  the key taken from the body receives the escaped value taken from the body.
\<close>

definition body_get :: "request \<Rightarrow> string \<Rightarrow> jsval" where
  "body_get rq k = (case map_of (req_body rq) k of Some v \<Rightarrow> v | None \<Rightarrow> Undefined)"

definition labelKey :: "request \<Rightarrow> string" where
  "labelKey rq = js_toString (body_get rq ''thing-label-language'')"

definition labelValue :: "request \<Rightarrow> string" where
  "labelValue rq = escapeString (js_toString (body_get rq ''thing-label''))"

definition assignLabel :: "request \<Rightarrow> thing \<Rightarrow> thing" where
  "assignLabel rq newRev =
     (let l0 = (case label newRev of None \<Rightarrow> [] | Some l \<Rightarrow> l)
      in newRev\<lparr>label := Some (AList.update (labelKey rq) (labelValue rq) l0)\<rparr>)"

definition post_edit_label :: "env \<Rightarrow> world \<Rightarrow> world" where
  "post_edit_label ev w =
     (let ident = trim (req_params_id (w_req w)) in
      case getNotStaleOrDeleted ev ident of
        Inl err \<Rightarrow> resourceErrorHandler ev ident err w
      | Inr t0 \<Rightarrow>
          (let t = populateUserInfo ev t0 (req_user (w_req w)) in
           if \<not> userCanEdit t then
             toResourceHandler ev ident
               (permissionError ev (no_extra_vars\<lparr>titleKey := Some ''edit label''\<rparr>) w)
           else
             (let w1 = w\<lparr>w_db := w_db w @ [NewRevisionCall t]\<rparr> in
              case newRevision ev t (req_user (w_req w)) of
                Inl error \<Rightarrow>
                  flashAndSend ev error ''editing label - creating new revision'' t w1
              | Inr newRev \<Rightarrow>
                  (let newRev1 = assignLabel (w_req w1) newRev;
                       w2 = w1\<lparr>w_db := w_db w1 @ [SaveCall newRev1]\<rparr>
                   in case save ev newRev1 of
                        Inr saved \<Rightarrow>
                          w2\<lparr>w_res := (w_res w2)\<lparr>res_status := 302,
                                     res_redirect := Some (''/thing/'' @ ident)\<rparr>\<rparr>
                      | Inl error \<Rightarrow>
                          flashAndSend ev (resolveError ev error)
                            ''editing label - saving'' t w2))))"

text \<open>The label translation of a thing in a language, if any.\<close>

definition labelIn :: "thing \<Rightarrow> string \<Rightarrow> string option" where
  "labelIn t lang = (case label t of None \<Rightarrow> None | Some l \<Rightarrow> map_of l lang)"

text \<open>The revisions handed to \<^verbatim>\<open>save\<close>, and the calls of \<^verbatim>\<open>newRevision\<close>.\<close>

fun savedRevisions :: "db_event list \<Rightarrow> thing list" where
  "savedRevisions [] = []"
| "savedRevisions (SaveCall t # es) = t # savedRevisions es"
| "savedRevisions (NewRevisionCall t # es) = savedRevisions es"

fun newRevisionCalls :: "db_event list \<Rightarrow> thing list" where
  "newRevisionCalls [] = []"
| "newRevisionCalls (NewRevisionCall t # es) = t # newRevisionCalls es"
| "newRevisionCalls (SaveCall t # es) = newRevisionCalls es"

section \<open>The editor-switcher pin (browser side)\<close>

record pin =
  pin_classes :: "string list"
  pin_title :: "string option"

record page =
  pins :: "pin list"
  genericActionError :: "string list"

text \<open>jQuery's \<^verbatim>\<open>addClass\<close> and \<^verbatim>\<open>removeClass\<close> on a list of class names.\<close>

definition addClass :: "string list \<Rightarrow> string list \<Rightarrow> string list" where
  "addClass names cs = foldl (\<lambda>acc c. if c \<in> set acc then acc else acc @ [c]) cs names"

definition removeClass :: "string list \<Rightarrow> string list \<Rightarrow> string list" where
  "removeClass names cs = filter (\<lambda>c. c \<notin> set names) cs"

text \<open>\<^verbatim>\<open>.attr('title', v)\<close>: an undefined value sets nothing.\<close>

definition attrTitle :: "string option \<Rightarrow> pin \<Rightarrow> pin" where
  "attrTitle v p = (case v of None \<Rightarrow> p | Some s \<Rightarrow> p\<lparr>pin_title := Some s\<rparr>)"

definition spin :: "pin \<Rightarrow> pin" where
  "spin p =
     p\<lparr>pin_classes :=
         addClass [''fa-spinner'', ''fa-spin'', ''editor-switcher-working'']
           (removeClass [''fa-thumb-tack''] (pin_classes p))\<rparr>"

definition unspin :: "pin \<Rightarrow> pin" where
  "unspin p =
     p\<lparr>pin_classes :=
         addClass [''fa-thumb-tack'']
           (removeClass [''fa-spinner'', ''fa-spin'', ''editor-switcher-working'']
              (pin_classes p))\<rparr>"

definition restyle :: "(string \<times> string) list \<Rightarrow> jsval \<Rightarrow> pin \<Rightarrow> pin" where
  "restyle messages newValue p =
     (if newValue = Str ''true'' then
        attrTitle (map_of messages ''forget rte preference'')
          (p\<lparr>pin_classes :=
               addClass [''editor-switcher-pinned'']
                 (removeClass [''editor-switcher-unpinned''] (pin_classes p))\<rparr>)
      else
        attrTitle (map_of messages ''remember rte preference'')
          (p\<lparr>pin_classes :=
               addClass [''editor-switcher-unpinned'']
                 (removeClass [''editor-switcher-pinned''] (pin_classes p))\<rparr>))"

definition onPin :: "nat \<Rightarrow> (pin \<Rightarrow> pin) \<Rightarrow> pin list \<Rightarrow> pin list" where
  "onPin i f ps = (if i < length ps then ps[i := f (ps ! i)] else ps)"

datatype ajax_result = Done jsval | Fail

text \<open>
  One click on the pin number \<open>i\<close>, up to the end of the Ajax callback. \<open>slow\<close> says
  whether the 100 ms timer fired before the answer came. Destructuring \<^verbatim>\<open>null\<close> or
  \<^verbatim>\<open>undefined\<close> throws after \<^verbatim>\<open>unspin\<close>.
\<close>

definition pinClick :: "(string \<times> string) list \<Rightarrow> nat \<Rightarrow> bool \<Rightarrow> ajax_result \<Rightarrow> page \<Rightarrow> page" where
  "pinClick messages i slow answer pg =
     (let ps1 = (if slow then onPin i spin (pins pg) else pins pg);
          ps2 = onPin i unspin ps1
      in case answer of
           Done res \<Rightarrow>
             (if res = Null \<or> res = Undefined then pg\<lparr>pins := ps2\<rparr>
              else pg\<lparr>pins := map (restyle messages (js_get res ''newValue'')) ps2\<rparr>)
         | Fail \<Rightarrow>
             pg\<lparr>pins := ps2,
                genericActionError := removeClass [''hidden''] (genericActionError pg)\<rparr>)"

text \<open>
  Modelled from the spec: the endpoint \<^verbatim>\<open>POST /api/actions/toggle-preference/\<close> is not
  among the sources. The specification says that it answers with
  \<^verbatim>\<open>{newValue: 'true'|'false'}\<close>, the flipped value of the stored preference.
\<close>

definition togglePreferenceEndpoint :: "bool \<Rightarrow> bool \<times> jsval" where
  "togglePreferenceEndpoint pref =
     (\<not> pref, Obj [(''newValue'', Str (if \<not> pref then ''true'' else ''false''))])"

text \<open>A click answered by the endpoint: the stored preference and the page after it.\<close>

definition togglePreference ::
  "(string \<times> string) list \<Rightarrow> nat \<Rightarrow> bool \<Rightarrow> bool \<times> page \<Rightarrow> bool \<times> page" where
  "togglePreference messages i slow st =
     (let (pref', res) = togglePreferenceEndpoint (fst st)
      in (pref', pinClick messages i slow (Done res) (snd st)))"

text \<open>
  A pin styled for the preference \<open>pref\<close>: it carries the class of that state and not
  the other one, and its title is the message of that state.
\<close>

definition pinStyledFor :: "(string \<times> string) list \<Rightarrow> bool \<Rightarrow> pin \<Rightarrow> bool" where
  "pinStyledFor messages pref p =
     ((''editor-switcher-pinned'' \<in> set (pin_classes p)) = pref \<and>
      (''editor-switcher-unpinned'' \<in> set (pin_classes p)) = (\<not> pref) \<and>
      pin_title p \<noteq> None \<and>
      pin_title p =
        map_of messages (if pref then ''forget rte preference'' else ''remember rte preference''))"

section \<open>Observations used in the statements\<close>

text \<open>A chain of property accesses \<^verbatim>\<open>o.a.b.c\<close>.\<close>

definition js_path :: "jsval \<Rightarrow> string list \<Rightarrow> jsval" where
  "js_path v ks = foldl js_get v ks"

text \<open>
  What the pin shows of the preference: whether it carries the pinned class, whether it
  carries the unpinned class, and its title.
\<close>

definition pinStyle :: "pin \<Rightarrow> bool \<times> bool \<times> string option" where
  "pinStyle p =
     (''editor-switcher-pinned'' \<in> set (pin_classes p),
      ''editor-switcher-unpinned'' \<in> set (pin_classes p),
      pin_title p)"

section \<open>Concrete values for the instances\<close>

text \<open>A translation function that returns the message key, as for a missing translation.\<close>

definition exampleTranslate :: "jsval list \<Rightarrow> string" where
  "exampleTranslate args = (case args of [] \<Rightarrow> [] | a # as \<Rightarrow> js_toString a)"

definition exampleThing :: thing where
  "exampleThing =
     \<lparr>thing_id = Str ''t1'',
      createdOn = Num 0,
      label = Some [(''en'', ''Tea''), (''fr'', ''The'')],
      aliases = None,
      description = None,
      urls = Some [''https://a.example'', ''https://b.example''],
      urlID = Undefined,
      mainURL = None,
      otherURLs = None,
      userCanEdit = False\<rparr>"

definition exampleRequest :: "string \<Rightarrow> request" where
  "exampleRequest name =
     \<lparr>req_user = Some \<lparr>displayName = name, suppressedNotices = None\<rparr>,
      req_body = [],
      req_method = ''POST'',
      req_params_id = '' t1 '',
      req_locale = ''en'',
      req_flash = []\<rparr>"

definition exampleWorld :: "string \<Rightarrow> world" where
  "exampleWorld name =
     \<lparr>w_req = exampleRequest name,
      w_res = \<lparr>res_status = 200, res_rendered = None, res_redirect = None\<rparr>,
      w_log = [],
      w_db = [],
      w_uncaught = []\<rparr>"

text \<open>
  An environment with one thing, which only the user \<^verbatim>\<open>admin\<close> may edit, and a store
  that accepts every revision.
\<close>

definition exampleEnv :: env where
  "exampleEnv =
     \<lparr>languages_getAll = [(''en'', ''english'')],
      translate = exampleTranslate,
      getNotStaleOrDeleted =
        (\<lambda>i. if i = ''t1'' then Inr exampleThing else Inl (ErrObj ''DocumentNotFound'' i)),
      populateUserInfo =
        (\<lambda>t u. t\<lparr>userCanEdit :=
                    (case u of None \<Rightarrow> False | Some x \<Rightarrow> displayName x = ''admin'')\<rparr>),
      newRevision = (\<lambda>t u. Inr t),
      save = (\<lambda>t. Inr t),
      resolveError = (\<lambda>e. e),
      resourceErrorHandler = (\<lambda>i e w. w)\<rparr>"

definition exampleMessages :: "(string \<times> string) list" where
  "exampleMessages =
     [(''forget rte preference'', ''Forget''), (''remember rte preference'', ''Remember'')]"

definition examplePage :: page where
  "examplePage =
     \<lparr>pins =
        [\<lparr>pin_classes = [''fa'', ''fa-thumb-tack'', ''editor-switcher-pin'',
                          ''editor-switcher-pinned''],
          pin_title = Some ''Forget''\<rparr>,
         \<lparr>pin_classes = [''editor-switcher-pinned'', ''fa'', ''fa-thumb-tack'',
                          ''editor-switcher-pin''],
          pin_title = Some ''Forget''\<rparr>],
      genericActionError = [''hidden'']\<rparr>"

section \<open>Properties of \<^verbatim>\<open>ErrorMessage\<close>\<close>

lemma escapeChar_no_markup: "set (escapeChar c) \<inter> markupChars = {}"
  by (simp add: markupChars_def)

lemma escapeString_no_markup: "set (escapeString s) \<inter> markupChars = {}"
proof (induction s)
  case Nil
  show ?case by (simp add: escapeString_def)
next
  case (Cons c cs)
  have "escapeString (c # cs) = escapeChar c @ escapeString cs"
    by (simp add: escapeString_def)
  with Cons escapeChar_no_markup [of c] show ?case
    by (simp only: set_append Int_Un_distrib2) simp
qed

lemma ErrorMessage_new_Inr:
  "ErrorMessage_new k (Arr ps) oe = Inr e \<Longrightarrow>
     e = \<lparr>msgKey = k, msgParams = ps, originalError = oe\<rparr> \<and> truthy k \<and> (\<forall>x \<in> set ps. isString x)"
  by (auto simp: ErrorMessage_new_def Let_def split: if_splits)

text \<open>
  Claim C1, as the code has it. For an \<^verbatim>\<open>ErrorMessage\<close> constructed with key \<open>k\<close> and
  the parameter list \<open>ps\<close>, \<^verbatim>\<open>toEscapedArray()\<close> has the length of \<^verbatim>\<open>toArray()\<close>,
  which is one more than the length of \<open>ps\<close>. Its first entry is the message key, passed
  through unchanged; every later entry is the HTML-escaped parameter at the same
  position, a string without quotes and angle brackets.
\<close>

theorem toEscapedArray_length_and_params:
  assumes "ErrorMessage_new k (Arr ps) oe = Inr e"
  shows "length (toEscapedArray e) = length (toArray e)
       \<and> length (toArray e) = 1 + length ps
       \<and> toEscapedArray e ! 0 = k
       \<and> (\<forall>i < length ps.
            toEscapedArray e ! (Suc i) = escapeHTML (toArray e ! (Suc i))
          \<and> (\<exists>s. toEscapedArray e ! (Suc i) = Str s \<and> set s \<inter> markupChars = {}))"
proof -
  from assms have e: "e = \<lparr>msgKey = k, msgParams = ps, originalError = oe\<rparr>"
    by (simp add: ErrorMessage_new_Inr)
  show ?thesis
    by (simp add: e toArray_def toEscapedArray_def escapeHTML_def escapeString_no_markup)
qed

theorem toEscapedArray_length_and_params_witness:
  "ErrorMessage_new (Str ''hello %s'') (Arr [Str ''<b>'']) Undefined
     = Inr \<lparr>msgKey = Str ''hello %s'', msgParams = [Str ''<b>''], originalError = Undefined\<rparr>
   \<and> length (toEscapedArray
        \<lparr>msgKey = Str ''hello %s'', msgParams = [Str ''<b>''], originalError = Undefined\<rparr>) = 2
   \<and> toEscapedArray
        \<lparr>msgKey = Str ''hello %s'', msgParams = [Str ''<b>''], originalError = Undefined\<rparr>
     = [Str ''hello %s'', Str ''&lt;b&gt;'']"
proof -
  have c: "ErrorMessage_new (Str ''hello %s'') (Arr [Str ''<b>'']) Undefined
     = Inr \<lparr>msgKey = Str ''hello %s'', msgParams = [Str ''<b>''], originalError = Undefined\<rparr>"
    by (simp add: ErrorMessage_new_def)
  have "length (toEscapedArray
      \<lparr>msgKey = Str ''hello %s'', msgParams = [Str ''<b>''], originalError = Undefined\<rparr>)
    = length (toArray
      \<lparr>msgKey = Str ''hello %s'', msgParams = [Str ''<b>''], originalError = Undefined\<rparr>)"
    using toEscapedArray_length_and_params [OF c] by (rule conjunct1)
  then have "length (toEscapedArray
      \<lparr>msgKey = Str ''hello %s'', msgParams = [Str ''<b>''], originalError = Undefined\<rparr>) = 2"
    by (simp add: toArray_def)
  moreover have "toEscapedArray
        \<lparr>msgKey = Str ''hello %s'', msgParams = [Str ''<b>''], originalError = Undefined\<rparr>
     = [Str ''hello %s'', Str ''&lt;b&gt;'']"
    by (simp add: toEscapedArray_def escapeHTML_def escapeString_def)
  ultimately show ?thesis using c by simp
qed

text \<open>
  Claim C1 as stated fails at the first entry, which is not escaped: with the key \<^verbatim>\<open><b>\<close> the escaped array still starts
  with \<^verbatim>\<open><b>\<close>, which differs from its escaped form.
\<close>

theorem toEscapedArray_key_counterexample:
  "ErrorMessage_new (Str ''<b>'') (Arr [Str ''<i>'']) Undefined
     = Inr \<lparr>msgKey = Str ''<b>'', msgParams = [Str ''<i>''], originalError = Undefined\<rparr>
   \<and> toEscapedArray \<lparr>msgKey = Str ''<b>'', msgParams = [Str ''<i>''], originalError = Undefined\<rparr>
     = [Str ''<b>'', Str ''&lt;i&gt;'']
   \<and> escapeHTML (Str ''<b>'') = Str ''&lt;b&gt;''
   \<and> toEscapedArray \<lparr>msgKey = Str ''<b>'', msgParams = [Str ''<i>''], originalError = Undefined\<rparr> ! 0
     \<noteq> escapeHTML
         (toArray \<lparr>msgKey = Str ''<b>'', msgParams = [Str ''<i>''], originalError = Undefined\<rparr> ! 0)"
  by (simp add: ErrorMessage_new_def toEscapedArray_def toArray_def escapeHTML_def escapeString_def)

text \<open>
  Claim C2, as the code has it. Construction fails exactly when the key is falsy, or the
  parameters are a truthy value that is not an array, or they are an array with an
  element that is not a string. With a truthy key, an array of strings is stored as it
  is, and falsy parameters (\<^verbatim>\<open>undefined\<close>, \<^verbatim>\<open>null\<close>, \<^verbatim>\<open>0\<close>, the empty string,
  \<^verbatim>\<open>false\<close>) stand for the empty list.
\<close>

theorem ErrorMessage_new_fails_iff:
  "((\<exists>err. ErrorMessage_new k params oe = Inl err) \<longleftrightarrow>
      (\<not> truthy k \<or> (truthy params \<and> \<not> isArray params)
       \<or> (\<exists>ys. params = Arr ys \<and> (\<exists>x \<in> set ys. \<not> isString x))))
   \<and> (truthy k \<and> (\<forall>x \<in> set xs. isString x) \<longrightarrow>
        ErrorMessage_new k (Arr xs) oe = Inr \<lparr>msgKey = k, msgParams = xs, originalError = oe\<rparr>)
   \<and> (truthy k \<and> \<not> truthy params \<longrightarrow>
        ErrorMessage_new k params oe = Inr \<lparr>msgKey = k, msgParams = [], originalError = oe\<rparr>)"
proof -
  have "(\<exists>err. ErrorMessage_new k params oe = Inl err) \<longleftrightarrow>
      (\<not> truthy k \<or> (truthy params \<and> \<not> isArray params)
       \<or> (\<exists>ys. params = Arr ys \<and> (\<exists>x \<in> set ys. \<not> isString x)))"
    by (cases params) (auto simp: ErrorMessage_new_def Let_def)
  moreover have "truthy k \<and> (\<forall>x \<in> set xs. isString x) \<longrightarrow>
        ErrorMessage_new k (Arr xs) oe = Inr \<lparr>msgKey = k, msgParams = xs, originalError = oe\<rparr>"
    by (simp add: ErrorMessage_new_def)
  moreover have "truthy k \<and> \<not> truthy params \<longrightarrow>
        ErrorMessage_new k params oe = Inr \<lparr>msgKey = k, msgParams = [], originalError = oe\<rparr>"
    by (simp add: ErrorMessage_new_def)
  ultimately show ?thesis by blast
qed

theorem ErrorMessage_new_fails_iff_witness:
  "(\<exists>err. ErrorMessage_new (Str ''key'') (Arr [Str ''a'', Num 1]) Undefined = Inl err)
   \<and> (\<exists>err. ErrorMessage_new (Str ''key'') (Obj []) Undefined = Inl err)
   \<and> ErrorMessage_new (Str ''key'') (Arr [Str ''a'']) Undefined
       = Inr \<lparr>msgKey = Str ''key'', msgParams = [Str ''a''], originalError = Undefined\<rparr>
   \<and> ErrorMessage_new (Str ''key'') Null Undefined
       = Inr \<lparr>msgKey = Str ''key'', msgParams = [], originalError = Undefined\<rparr>"
  using ErrorMessage_new_fails_iff [of "Str ''key''" "Arr [Str ''a'', Num 1]" Undefined "[Str ''a'']"]
    ErrorMessage_new_fails_iff [of "Str ''key''" "Obj []" Undefined "[]"]
    ErrorMessage_new_fails_iff [of "Str ''key''" Null Undefined "[]"]
  by simp

text \<open>
  Claim C2 as stated fails for falsy parameters. A parameter argument that is not an
  array does not always make construction fail:
  \<^verbatim>\<open>undefined\<close> and the empty string are accepted.
\<close>

theorem ErrorMessage_new_non_array_counterexample:
  "\<not> isArray Undefined \<and> \<not> isArray (Str [])
   \<and> ErrorMessage_new (Str ''key'') Undefined Undefined
       = Inr \<lparr>msgKey = Str ''key'', msgParams = [], originalError = Undefined\<rparr>
   \<and> ErrorMessage_new (Str ''key'') (Str []) Undefined
       = Inr \<lparr>msgKey = Str ''key'', msgParams = [], originalError = Undefined\<rparr>"
  by (simp add: ErrorMessage_new_def)

section \<open>Properties of the search module\<close>

lemma count_list_map_inj:
  "(\<And>a b. (f a = f b) = (a = b)) \<Longrightarrow> count_list (map f xs) (f x) = count_list xs x"
  by (induction xs) simp_all

text \<open>
  Claim C3. For the language \<^verbatim>\<open>fr\<close> the field list starts with the pattern of
  \<^verbatim>\<open>fr\<close> and goes on with one pattern per language of the fallback chain of
  \<^verbatim>\<open>fr\<close>, in order. When the requested language is the default language \<^verbatim>\<open>en\<close>,
  nothing is put in front: the field list has one pattern per language of the chain of
  \<^verbatim>\<open>en\<close>, so the pattern of \<^verbatim>\<open>en\<close> occurs as often as \<^verbatim>\<open>en\<close> occurs in that
  chain, which is once for a chain that names the default language once.
\<close>

theorem getSearchOptions_fields:
  "search_fields (getSearchOptions getFallbacks ty fieldPrefix ''fr'')
     = (fieldPrefix @ ''.fr*'') # map (\<lambda>l. fieldPrefix @ ''.'' @ l @ ''*'') (getFallbacks ''fr'')
   \<and> (\<forall>lang. lang = ''en'' \<longrightarrow>
         search_fields (getSearchOptions getFallbacks ty fieldPrefix lang)
           = map (\<lambda>l. fieldPrefix @ ''.'' @ l @ ''*'') (getFallbacks lang)
       \<and> count_list (search_fields (getSearchOptions getFallbacks ty fieldPrefix lang))
            (fieldPrefix @ ''.en*'')
           = count_list (getFallbacks lang) ''en''
       \<and> (count_list (getFallbacks lang) ''en'' = 1 \<longrightarrow>
            count_list (search_fields (getSearchOptions getFallbacks ty fieldPrefix lang))
              (fieldPrefix @ ''.en*'') = 1))"
proof -
  have fr: "search_fields (getSearchOptions getFallbacks ty fieldPrefix ''fr'')
     = (fieldPrefix @ ''.fr*'') # map (\<lambda>l. fieldPrefix @ ''.'' @ l @ ''*'') (getFallbacks ''fr'')"
    by (simp add: getSearchOptions_def Let_def)
  have en: "search_fields (getSearchOptions getFallbacks ty fieldPrefix ''en'')
           = map (\<lambda>l. fieldPrefix @ ''.'' @ l @ ''*'') (getFallbacks ''en'')"
    by (simp add: getSearchOptions_def Let_def)
  have "count_list (map (\<lambda>l. fieldPrefix @ ''.'' @ l @ ''*'') (getFallbacks ''en''))
          ((\<lambda>l. fieldPrefix @ ''.'' @ l @ ''*'') ''en'') = count_list (getFallbacks ''en'') ''en''"
    by (rule count_list_map_inj) simp
  then have cnt: "count_list (search_fields (getSearchOptions getFallbacks ty fieldPrefix ''en''))
            (fieldPrefix @ ''.en*'') = count_list (getFallbacks ''en'') ''en''"
    by (simp add: en)
  from fr en cnt show ?thesis by simp
qed

theorem getSearchOptions_fields_witness:
  "search_fields
     (getSearchOptions (\<lambda>l. if l = ''fr'' then [''de'', ''en''] else [''en''])
        ''things'' ''label'' ''fr'')
     = [''label.fr*'', ''label.de*'', ''label.en*'']
   \<and> count_list (if ''en'' = ''fr'' then [''de'', ''en''] else [''en'']) ''en'' = 1
   \<and> search_fields
       (getSearchOptions (\<lambda>l. if l = ''fr'' then [''de'', ''en''] else [''en''])
          ''things'' ''label'' ''en'')
     = [''label.en*'']
   \<and> count_list
       (search_fields
          (getSearchOptions (\<lambda>l. if l = ''fr'' then [''de'', ''en''] else [''en''])
             ''things'' ''label'' ''en''))
       ''label.en*'' = 1"
  using getSearchOptions_fields
    [of "\<lambda>l. if l = ''fr'' then [''de'', ''en''] else [''en'']" "''things''" "''label''"]
  by simp

text \<open>
  Claim C4. The request that \<^verbatim>\<open>indexReview\<close> submits carries the stripped title and the
  stripped text of the review, the request that \<^verbatim>\<open>indexThing\<close> submits carries the
  stripped label, aliases and description of the thing. Whatever the index call answers,
  the promise returned is fulfilled: with the answer when the call succeeds, and with
  \<^verbatim>\<open>undefined\<close>, after one entry has been added to the log, when it fails.
\<close>

theorem index_strips_and_never_rejects:
  "rq_body (indexReview_request stripHTML rv)
     = ReviewBody \<lparr>rb_createdOn = review_createdOn rv,
                   rb_title = stripHTML (review_title rv),
                   rb_text = stripHTML (review_html rv),
                   rb_starRating = starRating rv\<rparr>
   \<and> rq_body (indexThing_request stripHTML stripHTMLFromArray t)
     = ThingBody \<lparr>tb_createdOn = createdOn t,
                  tb_label = stripHTML (label t),
                  tb_aliases = stripHTMLFromArray (aliases t),
                  tb_description = stripHTML (description t),
                  tb_urls = urls t,
                  tb_urlID = urlID t\<rparr>
   \<and> indexReview client_index stripHTML rv lg
     = (case client_index (indexReview_request stripHTML rv) of
          Inr v \<Rightarrow> (Inr v, lg)
        | Inl error \<Rightarrow>
            (Inr Undefined, lg @ [\<lparr>log_context = None, log_req = None, log_error = error\<rparr>]))
   \<and> indexThing client_index stripHTML stripHTMLFromArray t lg
     = (case client_index (indexThing_request stripHTML stripHTMLFromArray t) of
          Inr v \<Rightarrow> (Inr v, lg)
        | Inl error \<Rightarrow>
            (Inr Undefined, lg @ [\<lparr>log_context = None, log_req = None, log_error = error\<rparr>]))
   \<and> (\<exists>v. fst (indexReview client_index stripHTML rv lg) = Inr v)
   \<and> (\<exists>v. fst (indexThing client_index stripHTML stripHTMLFromArray t lg) = Inr v)"
  by (simp add: indexReview_request_def indexThing_request_def indexReview_def indexThing_def
        debug_error_def split: sum.split)

section \<open>Properties of the error flash\<close>










section \<open>Properties of the thing routes\<close>

lemma render_template_ok:
  assumes "map_of (languages_getAll ev) (req_locale (w_req w)) = Some mk"
  shows "\<exists>vars w'. render_template ev view extraVars w = (None, w')
           \<and> res_rendered (w_res w') = Some (view, vars)
           \<and> res_status (w_res w') = res_status (w_res w)
           \<and> page_extra vars = extraVars"
  using assms by (simp add: render_template_def Let_def split: prod.split)

lemma render_template_db:
  "w_db (snd (render_template ev view extraVars w)) = w_db w"
  by (simp add: render_template_def Let_def split_beta split: option.split)

lemma sendThing_db:
  "w_db (snd (snd (sendThing ev t edit w))) = w_db w"
  by (simp add: sendThing_def Let_def split_beta render_template_db)

lemma flashAndSend_db:
  "w_db (flashAndSend ev err ctx t w) = w_db w"
proof (cases "flashErrorMessage (translate ev) (w_req w) err ctx (w_log w)")
  case (Inl e)
  then show ?thesis by (simp add: flashAndSend_def)
next
  case (Inr p)
  have "w_db (snd (snd (sendThing ev t None (w\<lparr>w_req := fst p, w_log := snd p\<rparr>)))) = w_db w"
    by (simp add: sendThing_db)
  with Inr show ?thesis
    by (simp add: flashAndSend_def split_beta split: option.split)
qed

lemma savedRevisions_append:
  "savedRevisions (xs @ ys) = savedRevisions xs @ savedRevisions ys"
  by (induction xs rule: savedRevisions.induct) simp_all

lemma body_empty_key:
  "req_body rq = [] \<Longrightarrow> labelKey rq = ''undefined'' \<and> labelValue rq = ''undefined''"
  by (simp add: labelKey_def labelValue_def body_get_def escapeString_def)

lemma labelIn_assignLabel:
  "labelIn (assignLabel rq newRev) lang =
     (if lang = labelKey rq then Some (labelValue rq) else labelIn newRev lang)"
  by (simp add: labelIn_def assignLabel_def Let_def update_conv' split: option.split)

lemma assignLabel_frame: "(assignLabel rq newRev)\<lparr>label := label newRev\<rparr> = newRev"
  by (simp add: assignLabel_def Let_def)

lemma post_edit_label_saved:
  assumes "getNotStaleOrDeleted ev (trim (req_params_id (w_req w))) = Inr t0"
    and "userCanEdit (populateUserInfo ev t0 (req_user (w_req w)))"
    and "newRevision ev (populateUserInfo ev t0 (req_user (w_req w))) (req_user (w_req w))
           = Inr newRev"
  shows "savedRevisions (w_db (post_edit_label ev w))
           = savedRevisions (w_db w) @ [assignLabel (w_req w) newRev]"
proof (cases "save ev (assignLabel (w_req w) newRev)")
  case (Inr saved)
  with assms show ?thesis
    by (simp add: post_edit_label_def Let_def savedRevisions_append)
next
  case (Inl error)
  with assms show ?thesis
    by (simp add: post_edit_label_def Let_def savedRevisions_append flashAndSend_db)
qed

lemma example_lookup:
  "getNotStaleOrDeleted exampleEnv (trim (req_params_id (w_req (exampleWorld name))))
     = Inr exampleThing"
  by (simp add: exampleEnv_def exampleWorld_def exampleRequest_def trim_def isSpace_def)

lemma example_canEdit:
  "userCanEdit (populateUserInfo exampleEnv exampleThing (req_user (w_req (exampleWorld name))))
     = (name = ''admin'')"
  by (simp add: exampleEnv_def exampleWorld_def exampleRequest_def)

text \<open>
  Claim C5. A user who may edit the thing posts the label form with an empty body. The
  revision that is handed to \<^verbatim>\<open>save\<close> is the new revision with one label entry
  assigned, under the key \<^verbatim>\<open>undefined\<close> that the missing form field yields: for
  every other language its label translation is the one of the fetched thing, whose label
  the new revision starts from, and nothing but the label differs from the new revision.
\<close>

theorem post_edit_label_empty_body_keeps_other_languages:
  assumes "getNotStaleOrDeleted ev (trim (req_params_id (w_req w))) = Inr t0"
    and "userCanEdit (populateUserInfo ev t0 (req_user (w_req w)))"
    and "newRevision ev (populateUserInfo ev t0 (req_user (w_req w))) (req_user (w_req w))
           = Inr newRev"
    and "label newRev = label t0"
    and "req_body (w_req w) = []"
  shows "\<exists>rev. savedRevisions (w_db (post_edit_label ev w)) = savedRevisions (w_db w) @ [rev]
           \<and> (\<forall>lang. lang \<noteq> ''undefined'' \<longrightarrow> labelIn rev lang = labelIn t0 lang)
           \<and> rev\<lparr>label := label newRev\<rparr> = newRev"
proof -
  let ?rev = "assignLabel (w_req w) newRev"
  have s: "savedRevisions (w_db (post_edit_label ev w)) = savedRevisions (w_db w) @ [?rev]"
    using assms(1-3) by (rule post_edit_label_saved)
  have k: "labelKey (w_req w) = ''undefined''"
    using assms(5) by (simp add: body_empty_key)
  have "labelIn newRev = labelIn t0"
    using assms(4) by (simp add: labelIn_def fun_eq_iff)
  then have l: "\<forall>lang. lang \<noteq> ''undefined'' \<longrightarrow> labelIn ?rev lang = labelIn t0 lang"
    by (simp add: labelIn_assignLabel k)
  have f: "?rev\<lparr>label := label newRev\<rparr> = newRev"
    by (rule assignLabel_frame)
  from s l f show ?thesis by blast
qed

theorem post_edit_label_empty_body_witness:
  "getNotStaleOrDeleted exampleEnv (trim (req_params_id (w_req (exampleWorld ''admin''))))
     = Inr exampleThing
   \<and> userCanEdit
       (populateUserInfo exampleEnv exampleThing (req_user (w_req (exampleWorld ''admin''))))
   \<and> newRevision exampleEnv
       (populateUserInfo exampleEnv exampleThing (req_user (w_req (exampleWorld ''admin''))))
       (req_user (w_req (exampleWorld ''admin'')))
     = Inr (exampleThing\<lparr>userCanEdit := True\<rparr>)
   \<and> label (exampleThing\<lparr>userCanEdit := True\<rparr>) = label exampleThing
   \<and> req_body (w_req (exampleWorld ''admin'')) = []
   \<and> labelIn exampleThing ''fr'' = Some ''The''
   \<and> (\<exists>rev. savedRevisions (w_db (post_edit_label exampleEnv (exampleWorld ''admin'')))
               = savedRevisions (w_db (exampleWorld ''admin'')) @ [rev]
            \<and> labelIn rev ''en'' = Some ''Tea''
            \<and> labelIn rev ''fr'' = Some ''The''
            \<and> rev\<lparr>label := label (exampleThing\<lparr>userCanEdit := True\<rparr>)\<rparr>
                = exampleThing\<lparr>userCanEdit := True\<rparr>)"
proof -
  have h1: "getNotStaleOrDeleted exampleEnv (trim (req_params_id (w_req (exampleWorld ''admin''))))
     = Inr exampleThing"
    by (rule example_lookup)
  have h2: "userCanEdit
       (populateUserInfo exampleEnv exampleThing (req_user (w_req (exampleWorld ''admin''))))"
    by (simp add: example_canEdit)
  have h3: "newRevision exampleEnv
       (populateUserInfo exampleEnv exampleThing (req_user (w_req (exampleWorld ''admin''))))
       (req_user (w_req (exampleWorld ''admin'')))
     = Inr (exampleThing\<lparr>userCanEdit := True\<rparr>)"
    by (simp add: exampleEnv_def exampleWorld_def exampleRequest_def)
  have h4: "label (exampleThing\<lparr>userCanEdit := True\<rparr>) = label exampleThing"
    by simp
  have h5: "req_body (w_req (exampleWorld ''admin'')) = []"
    by (simp add: exampleWorld_def exampleRequest_def)
  have h6: "labelIn exampleThing ''fr'' = Some ''The''"
    and h7: "labelIn exampleThing ''en'' = Some ''Tea''"
    by (simp_all add: labelIn_def exampleThing_def)
  from post_edit_label_empty_body_keeps_other_languages [OF h1 h2 h3 h4 h5]
  obtain rev where
    r1: "savedRevisions (w_db (post_edit_label exampleEnv (exampleWorld ''admin'')))
           = savedRevisions (w_db (exampleWorld ''admin'')) @ [rev]"
    and r2: "\<forall>lang. lang \<noteq> ''undefined'' \<longrightarrow> labelIn rev lang = labelIn exampleThing lang"
    and r3: "rev\<lparr>label := label (exampleThing\<lparr>userCanEdit := True\<rparr>)\<rparr>
               = exampleThing\<lparr>userCanEdit := True\<rparr>"
    by blast
  from r2 h6 h7 have r4: "labelIn rev ''en'' = Some ''Tea''" and r5: "labelIn rev ''fr'' = Some ''The''"
    by simp_all
  from r1 r4 r5 r3 have
    "\<exists>rev. savedRevisions (w_db (post_edit_label exampleEnv (exampleWorld ''admin'')))
               = savedRevisions (w_db (exampleWorld ''admin'')) @ [rev]
            \<and> labelIn rev ''en'' = Some ''Tea''
            \<and> labelIn rev ''fr'' = Some ''The''
            \<and> rev\<lparr>label := label (exampleThing\<lparr>userCanEdit := True\<rparr>)\<rparr>
                = exampleThing\<lparr>userCanEdit := True\<rparr>"
    by blast
  with h1 h2 h3 h4 h5 h6 show ?thesis
    by (intro conjI)
qed

text \<open>
  Claim C7. A signed-in user who may not edit the thing asks for the label form, or posts
  it, for a thing that exists, in a locale of the language table. Both routes answer with
  status 403 and the view \<^verbatim>\<open>permission-error\<close>, and neither calls the document store:
  no new revision is created and nothing is saved.
\<close>

theorem edit_label_permission_denied:
  assumes "getNotStaleOrDeleted ev (trim (req_params_id (w_req w))) = Inr t0"
    and "\<not> userCanEdit (populateUserInfo ev t0 (req_user (w_req w)))"
    and "req_user (w_req w) \<noteq> None"
    and "map_of (languages_getAll ev) (req_locale (w_req w)) = Some mk"
  shows "res_status (w_res (get_edit_label ev w)) = 403
       \<and> (\<exists>vars. res_rendered (w_res (get_edit_label ev w)) = Some (''permission-error'', vars))
       \<and> w_db (get_edit_label ev w) = w_db w
       \<and> res_status (w_res (post_edit_label ev w)) = 403
       \<and> (\<exists>vars. res_rendered (w_res (post_edit_label ev w)) = Some (''permission-error'', vars))
       \<and> w_db (post_edit_label ev w) = w_db w"
proof -
  let ?x = "no_extra_vars\<lparr>titleKey := Some ''edit label''\<rparr>"
  let ?w3 = "w\<lparr>w_res := (w_res w)\<lparr>res_status := 403\<rparr>\<rparr>"
  from assms(4) have "map_of (languages_getAll ev) (req_locale (w_req ?w3)) = Some mk"
    by simp
  from render_template_ok [OF this, of "''permission-error''" ?x]
  obtain vars w' where r: "render_template ev ''permission-error'' ?x ?w3 = (None, w')"
    and v: "res_rendered (w_res w') = Some (''permission-error'', vars)"
    and s: "res_status (w_res w') = 403"
    by auto
  from render_template_db [of ev "''permission-error''" ?x ?w3] r
  have d: "w_db w' = w_db w" by simp
  have p: "permissionError ev ?x w = (None, w')"
    using r by (simp add: permissionError_def)
  have g: "get_edit_label ev w = w'"
    using assms(1-3) p by (auto simp: get_edit_label_def toResourceHandler_def Let_def)
  have q: "post_edit_label ev w = w'"
    using assms(1,2) p by (simp add: post_edit_label_def toResourceHandler_def Let_def)
  from g q v s d show ?thesis by simp
qed

theorem edit_label_permission_denied_witness:
  "getNotStaleOrDeleted exampleEnv (trim (req_params_id (w_req (exampleWorld ''bob''))))
     = Inr exampleThing
   \<and> \<not> userCanEdit
         (populateUserInfo exampleEnv exampleThing (req_user (w_req (exampleWorld ''bob''))))
   \<and> req_user (w_req (exampleWorld ''bob'')) \<noteq> None
   \<and> map_of (languages_getAll exampleEnv) (req_locale (w_req (exampleWorld ''bob'')))
       = Some ''english''
   \<and> (res_status (w_res (get_edit_label exampleEnv (exampleWorld ''bob''))) = 403
      \<and> (\<exists>vars. res_rendered (w_res (get_edit_label exampleEnv (exampleWorld ''bob'')))
                   = Some (''permission-error'', vars))
      \<and> w_db (get_edit_label exampleEnv (exampleWorld ''bob'')) = w_db (exampleWorld ''bob'')
      \<and> res_status (w_res (post_edit_label exampleEnv (exampleWorld ''bob''))) = 403
      \<and> (\<exists>vars. res_rendered (w_res (post_edit_label exampleEnv (exampleWorld ''bob'')))
                   = Some (''permission-error'', vars))
      \<and> w_db (post_edit_label exampleEnv (exampleWorld ''bob'')) = w_db (exampleWorld ''bob''))"
proof -
  have h1: "getNotStaleOrDeleted exampleEnv (trim (req_params_id (w_req (exampleWorld ''bob''))))
     = Inr exampleThing"
    by (rule example_lookup)
  have h2: "\<not> userCanEdit
         (populateUserInfo exampleEnv exampleThing (req_user (w_req (exampleWorld ''bob''))))"
    by (simp add: example_canEdit)
  have h3: "req_user (w_req (exampleWorld ''bob'')) \<noteq> None"
    by (simp add: exampleWorld_def exampleRequest_def)
  have h4: "map_of (languages_getAll exampleEnv) (req_locale (w_req (exampleWorld ''bob'')))
       = Some ''english''"
    by (simp add: exampleEnv_def exampleWorld_def exampleRequest_def)
  show ?thesis
    by (intro conjI h1 h2 h3 h4 edit_label_permission_denied [OF h1 h2 h3 h4])
qed

lemma sendThing_thing:
  "fst (snd (sendThing ev t edit w)) =
     (case urls t of
        Some (u # us) \<Rightarrow>
          (let t' = t\<lparr>mainURL := Some u, urls := Some us\<rparr>
           in if us \<noteq> [] then t'\<lparr>otherURLs := Some SameAsUrls\<rparr> else t')
      | _ \<Rightarrow> t)"
  by (simp add: sendThing_def Let_def split_beta)

text \<open>
  Claim C10. \<^verbatim>\<open>sendThing\<close> changes its thing. When the URL list has a first element,
  that element becomes the main URL and the list loses it. When a URL is left,
  \<^verbatim>\<open>otherURLs\<close> is set to the array of \<^verbatim>\<open>urls\<close> itself and so holds the remaining
  list; when none is left, the field \<^verbatim>\<open>otherURLs\<close> is not assigned. Every other field
  is as before. A field \<^verbatim>\<open>otherURLs\<close> that already held the array of \<^verbatim>\<open>urls\<close>, as
  on a thing sent before, shows the shortened list in both cases; an array of its own
  keeps its contents. Without a URL list, or with an empty one, the thing is unchanged.
\<close>

theorem sendThing_changes_thing:
  "(\<forall>u us. urls t = Some (u # us) \<longrightarrow>
       mainURL (fst (snd (sendThing ev t edit w))) = Some u
     \<and> urls (fst (snd (sendThing ev t edit w))) = Some us
     \<and> otherURLs (fst (snd (sendThing ev t edit w)))
         = (if us \<noteq> [] then Some SameAsUrls else otherURLs t)
     \<and> otherURLsValue (fst (snd (sendThing ev t edit w)))
         = (if us \<noteq> [] \<or> otherURLs t = Some SameAsUrls then Some us else otherURLsValue t)
     \<and> (fst (snd (sendThing ev t edit w)))
         \<lparr>mainURL := mainURL t, urls := urls t, otherURLs := otherURLs t\<rparr> = t)
   \<and> (urls t = None \<or> urls t = Some [] \<longrightarrow> fst (snd (sendThing ev t edit w)) = t)"
  unfolding sendThing_thing
  by (auto simp: Let_def otherURLsValue_def split: option.split url_array.split)

theorem sendThing_changes_thing_witness:
  "urls exampleThing = Some (''https://a.example'' # [''https://b.example''])
   \<and> mainURL (fst (snd (sendThing exampleEnv exampleThing None (exampleWorld ''bob''))))
       = Some ''https://a.example''
   \<and> urls (fst (snd (sendThing exampleEnv exampleThing None (exampleWorld ''bob''))))
       = Some [''https://b.example'']
   \<and> otherURLs (fst (snd (sendThing exampleEnv exampleThing None (exampleWorld ''bob''))))
       = Some SameAsUrls
   \<and> otherURLsValue (fst (snd (sendThing exampleEnv exampleThing None (exampleWorld ''bob''))))
       = Some [''https://b.example'']
   \<and> urls (exampleThing\<lparr>urls := Some [''https://b.example''], otherURLs := Some SameAsUrls\<rparr>)
       = Some (''https://b.example'' # [])
   \<and> mainURL (fst (snd (sendThing exampleEnv
         (exampleThing\<lparr>urls := Some [''https://b.example''], otherURLs := Some SameAsUrls\<rparr>)
         None (exampleWorld ''bob''))))
       = Some ''https://b.example''
   \<and> otherURLs (fst (snd (sendThing exampleEnv
         (exampleThing\<lparr>urls := Some [''https://b.example''], otherURLs := Some SameAsUrls\<rparr>)
         None (exampleWorld ''bob''))))
       = Some SameAsUrls
   \<and> otherURLsValue (fst (snd (sendThing exampleEnv
         (exampleThing\<lparr>urls := Some [''https://b.example''], otherURLs := Some SameAsUrls\<rparr>)
         None (exampleWorld ''bob''))))
       = Some []
   \<and> urls (exampleThing\<lparr>urls := Some []\<rparr>) = Some []
   \<and> fst (snd (sendThing exampleEnv (exampleThing\<lparr>urls := Some []\<rparr>) None (exampleWorld ''bob'')))
       = exampleThing\<lparr>urls := Some []\<rparr>"
proof -
  let ?t2 = "exampleThing\<lparr>urls := Some [''https://b.example''], otherURLs := Some SameAsUrls\<rparr>"
  have u: "urls exampleThing = Some (''https://a.example'' # [''https://b.example''])"
    by (simp add: exampleThing_def)
  have u2: "urls ?t2 = Some (''https://b.example'' # [])"
    by simp
  have o2: "otherURLs ?t2 = Some SameAsUrls"
    by simp
  have e: "urls (exampleThing\<lparr>urls := Some []\<rparr>) = Some []"
    by simp
  note a = sendThing_changes_thing
    [of exampleThing exampleEnv None "exampleWorld ''bob''", THEN conjunct1, rule_format, OF u]
  note b = sendThing_changes_thing
    [of ?t2 exampleEnv None "exampleWorld ''bob''", THEN conjunct1, rule_format, OF u2]
  note c = sendThing_changes_thing
    [of "exampleThing\<lparr>urls := Some []\<rparr>" exampleEnv None "exampleWorld ''bob''",
     THEN conjunct2, rule_format, OF disjI2, OF e]
  note a1 = a [THEN conjunct1]
  note a2 = a [THEN conjunct2, THEN conjunct1]
  have a3: "otherURLs (fst (snd (sendThing exampleEnv exampleThing None (exampleWorld ''bob''))))
       = Some SameAsUrls"
    using a [THEN conjunct2, THEN conjunct2, THEN conjunct1] by simp
  have a4: "otherURLsValue (fst (snd (sendThing exampleEnv exampleThing None (exampleWorld ''bob''))))
       = Some [''https://b.example'']"
    using a [THEN conjunct2, THEN conjunct2, THEN conjunct2, THEN conjunct1] by simp
  note b1 = b [THEN conjunct1]
  have b3: "otherURLs (fst (snd (sendThing exampleEnv ?t2 None (exampleWorld ''bob''))))
       = Some SameAsUrls"
    using b [THEN conjunct2, THEN conjunct2, THEN conjunct1] by (simp only: o2 simp_thms if_False)
  have b4: "otherURLsValue (fst (snd (sendThing exampleEnv ?t2 None (exampleWorld ''bob''))))
       = Some []"
    using b [THEN conjunct2, THEN conjunct2, THEN conjunct2, THEN conjunct1]
    by (simp only: o2 simp_thms if_True)
  show ?thesis
    by (intro conjI u a1 a2 a3 a4 u2 b1 b3 b4 e c)
qed

section \<open>Properties of the editor-switcher pin\<close>

lemma set_addClass: "set (addClass names cs) = set cs \<union> set names"
proof -
  have "set (foldl (\<lambda>acc c. if c \<in> set acc then acc else acc @ [c]) cs names) = set cs \<union> set names"
    by (induction names arbitrary: cs) auto
  then show ?thesis by (simp add: addClass_def)
qed

lemma set_removeClass: "set (removeClass names cs) = set cs - set names"
  by (auto simp: removeClass_def)

lemma pinStyle_spin: "pinStyle (spin p) = pinStyle p"
  by (simp add: pinStyle_def spin_def set_addClass set_removeClass)

lemma pinStyle_unspin: "pinStyle (unspin p) = pinStyle p"
  by (simp add: pinStyle_def unspin_def set_addClass set_removeClass)

lemma pinStyle_onPin:
  assumes "\<And>p. pinStyle (f p) = pinStyle p"
  shows "map pinStyle (onPin i f ps) = map pinStyle ps"
  by (simp add: onPin_def map_update assms list_update_same_conv)

lemma pinStyle_restyle:
  "pinStyle (restyle messages (Str v) p) =
     (if v = ''true''
      then (True, False,
            case map_of messages ''forget rte preference'' of
              None \<Rightarrow> pin_title p | Some s \<Rightarrow> Some s)
      else (False, True,
            case map_of messages ''remember rte preference'' of
              None \<Rightarrow> pin_title p | Some s \<Rightarrow> Some s))"
  by (simp add: pinStyle_def restyle_def attrTitle_def set_addClass set_removeClass
        split: option.split)

lemma pins_togglePreference:
  "map pinStyle (pins (snd (togglePreference messages i slow (pref, pg))))
     = map (\<lambda>p. pinStyle (restyle messages (Str (if \<not> pref then ''true'' else ''false'')) p))
         (pins pg)
   \<and> fst (togglePreference messages i slow (pref, pg)) = (\<not> pref)"
proof -
  let ?v = "Str (if \<not> pref then ''true'' else ''false'')"
  let ?ps = "onPin i unspin (if slow then onPin i spin (pins pg) else pins pg)"
  have a: "map pinStyle ?ps = map pinStyle (pins pg)"
    by (simp add: pinStyle_onPin pinStyle_spin pinStyle_unspin)
  have b: "pins (snd (togglePreference messages i slow (pref, pg))) = map (restyle messages ?v) ?ps"
    by (simp add: togglePreference_def togglePreferenceEndpoint_def pinClick_def Let_def)
  have c: "pinStyle (restyle messages ?v p) = pinStyle (restyle messages ?v q)"
    if "pinStyle p = pinStyle q" for p q
  proof -
    from that have "pin_title p = pin_title q" by (simp add: pinStyle_def)
    then show ?thesis by (simp add: pinStyle_restyle split: option.split)
  qed
  have "map pinStyle (map (restyle messages ?v) ?ps)
        = map (\<lambda>p. pinStyle (restyle messages ?v p)) (pins pg)"
  proof (rule nth_equalityI)
    show "length (map pinStyle (map (restyle messages ?v) ?ps))
        = length (map (\<lambda>p. pinStyle (restyle messages ?v p)) (pins pg))"
      using a by (metis length_map)
  next
    fix n assume n: "n < length (map pinStyle (map (restyle messages ?v) ?ps))"
    then have n1: "n < length ?ps" by simp
    have len: "length ?ps = length (pins pg)" using a by (metis length_map)
    with n1 have n2: "n < length (pins pg)" by simp
    have "pinStyle (?ps ! n) = pinStyle (pins pg ! n)"
      using a n1 n2 by (metis nth_map)
    then have "pinStyle (restyle messages ?v (?ps ! n)) = pinStyle (restyle messages ?v (pins pg ! n))"
      by (rule c)
    then show "map pinStyle (map (restyle messages ?v) ?ps) ! n
        = map (\<lambda>p. pinStyle (restyle messages ?v p)) (pins pg) ! n"
      using n1 n2 by simp
  qed
  moreover have "fst (togglePreference messages i slow (pref, pg)) = (\<not> pref)"
    by (simp add: togglePreference_def togglePreferenceEndpoint_def)
  ultimately show ?thesis using b by simp
qed

text \<open>
  Claim C9. All pins of the page are styled for the stored preference. After two clicks,
  on any pins, each answered by the endpoint with the flipped value, and whether or not
  the spinner showed, the stored preference is the original one, and every pin has its
  original pinned class state, unpinned class state and title.
\<close>

theorem toggle_twice_restores_pins:
  assumes "\<forall>p \<in> set (pins pg). pinStyledFor messages pref p"
  shows "fst (togglePreference messages j slow2 (togglePreference messages i slow1 (pref, pg))) = pref
       \<and> map pinStyle
           (pins (snd (togglePreference messages j slow2
                         (togglePreference messages i slow1 (pref, pg)))))
         = map pinStyle (pins pg)"
proof -
  obtain pref1 pg1 where t1: "togglePreference messages i slow1 (pref, pg) = (pref1, pg1)"
    by (cases "togglePreference messages i slow1 (pref, pg)")
  let ?v1 = "Str (if \<not> pref then ''true'' else ''false'')"
  let ?v2 = "Str (if pref then ''true'' else ''false'')"
  from pins_togglePreference [of messages i slow1 pref pg] t1
  have p1: "pref1 = (\<not> pref)"
    and s1: "map pinStyle (pins pg1) = map (\<lambda>p. pinStyle (restyle messages ?v1 p)) (pins pg)"
    by simp_all
  from pins_togglePreference [of messages j slow2 pref1 pg1] p1
  have p2: "fst (togglePreference messages j slow2 (pref1, pg1)) = pref"
    and s2: "map pinStyle (pins (snd (togglePreference messages j slow2 (pref1, pg1))))
              = map (\<lambda>p. pinStyle (restyle messages ?v2 p)) (pins pg1)"
    by simp_all
  have len: "length (pins pg1) = length (pins pg)"
    using s1 by (metis length_map)
  have "map (\<lambda>p. pinStyle (restyle messages ?v2 p)) (pins pg1) = map pinStyle (pins pg)"
  proof (rule nth_equalityI)
    show "length (map (\<lambda>p. pinStyle (restyle messages ?v2 p)) (pins pg1))
            = length (map pinStyle (pins pg))"
      using len by simp
  next
    fix n assume "n < length (map (\<lambda>p. pinStyle (restyle messages ?v2 p)) (pins pg1))"
    then have n1: "n < length (pins pg1)" and n: "n < length (pins pg)"
      using len by simp_all
    from n assms have st: "pinStyledFor messages pref (pins pg ! n)"
      by simp
    then have "pin_title (pins pg ! n) \<noteq> None"
      and tm: "pin_title (pins pg ! n)
        = map_of messages (if pref then ''forget rte preference'' else ''remember rte preference'')"
      unfolding pinStyledFor_def by blast+
    then obtain s where ti: "pin_title (pins pg ! n) = Some s"
      by auto
    with tm have
      m: "map_of messages (if pref then ''forget rte preference'' else ''remember rte preference'')
            = Some s"
      by simp
    have "pinStyle (restyle messages ?v2 (pins pg1 ! n)) = (pref, \<not> pref, Some s)"
      using m by (cases pref) (simp_all add: pinStyle_restyle)
    moreover have "pinStyle (pins pg ! n) = (pref, \<not> pref, Some s)"
      using st ti by (simp add: pinStyle_def pinStyledFor_def)
    ultimately have "pinStyle (restyle messages ?v2 (pins pg1 ! n)) = pinStyle (pins pg ! n)"
      by simp
    then show "map (\<lambda>p. pinStyle (restyle messages ?v2 p)) (pins pg1) ! n
                 = map pinStyle (pins pg) ! n"
      using n n1 by simp
  qed
  with s2 p2 t1 show ?thesis by simp
qed

theorem toggle_twice_restores_pins_witness:
  "pinStyledFor exampleMessages True (pins examplePage ! 0)
   \<and> pinStyledFor exampleMessages True (pins examplePage ! 1)
   \<and> length (pins examplePage) = 2
   \<and> fst (togglePreference exampleMessages 1 False
            (togglePreference exampleMessages 0 True (True, examplePage))) = True
   \<and> map pinStyle
       (pins (snd (togglePreference exampleMessages 1 False
                     (togglePreference exampleMessages 0 True (True, examplePage)))))
     = map pinStyle (pins examplePage)
   \<and> map pinStyle (pins examplePage) = [(True, False, Some ''Forget''), (True, False, Some ''Forget'')]
   \<and> map pinStyle (pins (snd (togglePreference exampleMessages 0 True (True, examplePage))))
     = [(False, True, Some ''Remember''), (False, True, Some ''Remember'')]"
proof -
  have h0: "pinStyledFor exampleMessages True (pins examplePage ! 0)"
    and h1: "pinStyledFor exampleMessages True (pins examplePage ! 1)"
    and hl: "length (pins examplePage) = 2"
    by (simp_all add: examplePage_def pinStyledFor_def exampleMessages_def)
  have h: "\<forall>p \<in> set (pins examplePage). pinStyledFor exampleMessages True p"
    by (simp add: examplePage_def pinStyledFor_def exampleMessages_def)
  have s0: "map pinStyle (pins examplePage)
              = [(True, False, Some ''Forget''), (True, False, Some ''Forget'')]"
    by (simp add: examplePage_def pinStyle_def)
  have r: "\<And>p. pinStyle (restyle exampleMessages (Str ''false'') p) = (False, True, Some ''Remember'')"
    by (simp add: pinStyle_restyle exampleMessages_def)
  have s1: "map pinStyle (pins (snd (togglePreference exampleMessages 0 True (True, examplePage))))
     = [(False, True, Some ''Remember''), (False, True, Some ''Remember'')]"
    using pins_togglePreference [of exampleMessages 0 True True examplePage]
    by (simp add: r) (simp add: examplePage_def)
  note t = toggle_twice_restores_pins [OF h, of 1 False 0 True]
  show ?thesis
    by (intro conjI h0 h1 hl s0 s1 t [THEN conjunct1] t [THEN conjunct2])
qed

section \<open>Properties of the index mapping\<close>

lemma update_fresh: "k \<notin> fst ` set al \<Longrightarrow> AList.update k v al = al @ [(k, v)]"
  by (induction al) auto

lemma foldl_update_distinct:
  "distinct ks \<Longrightarrow> set ks \<inter> fst ` set acc = {} \<Longrightarrow>
     foldl (\<lambda>props k. AList.update k (f k) props) acc ks = acc @ map (\<lambda>k. (k, f k)) ks"
proof (induction ks arbitrary: acc)
  case Nil
  then show ?case by simp
next
  case (Cons k ks)
  from Cons.prems have fresh: "k \<notin> fst ` set acc" by auto
  then have u: "AList.update k (f k) acc = acc @ [(k, f k)]" by (rule update_fresh)
  from Cons.prems have "distinct ks" and "set ks \<inter> fst ` set (acc @ [(k, f k)]) = {}"
    by auto
  then have "foldl (\<lambda>props k. AList.update k (f k) props) (acc @ [(k, f k)]) ks
               = (acc @ [(k, f k)]) @ map (\<lambda>k. (k, f k)) ks"
    by (rule Cons.IH)
  with u show ?case by simp
qed

lemma distinct_analyzers: "distinct (map fst analyzers)"
  by (simp add: analyzers_def)

lemma properties_list:
  "getMultilingualTextProperties c
     = Obj [(''properties'',
             Obj (map (\<lambda>lang. (lang, languageProperty c lang)) (map fst analyzers)))]"
  using foldl_update_distinct [OF distinct_analyzers, of "[]" "languageProperty c"]
  by (simp add: getMultilingualTextProperties_def)

lemma map_of_keyed: "k \<in> set ks \<Longrightarrow> map_of (map (\<lambda>k. (k, f k)) ks) k = Some (f k)"
  by (induction ks) auto

lemma analyzer_lookup:
  assumes "(lang, an) \<in> set analyzers"
  shows "js_get (Obj (map (\<lambda>(k, a). (k, Str a)) analyzers)) lang = Str an"
proof -
  have "map_of analyzers lang = Some an"
    using distinct_analyzers assms by (rule map_of_is_SomeI)
  moreover have "map_of (map (\<lambda>(k, a). (k, Str a)) analyzers) lang
                   = map_option Str (map_of analyzers lang)"
    by (simp add: map_of_map)
  ultimately show ?thesis by simp
qed

lemma mapping_paths:
  "js_path createIndices_request [''body'', ''mappings'', ''reviews'', ''properties'', ''text'']
     = getMultilingualTextProperties False"
  "js_path createIndices_request [''body'', ''mappings'', ''reviews'', ''properties'', ''title'']
     = getMultilingualTextProperties False"
  "js_path createIndices_request [''body'', ''mappings'', ''things'', ''properties'', ''label'']
     = getMultilingualTextProperties True"
  "js_path createIndices_request [''body'', ''mappings'', ''things'', ''properties'', ''aliases'']
     = getMultilingualTextProperties True"
  "js_path createIndices_request [''body'', ''mappings'', ''things'', ''properties'', ''description'']
     = getMultilingualTextProperties False"
  by (simp_all add: js_path_def createIndices_request_def)

text \<open>
  Claim C8, as the code has it. In the request of \<^verbatim>\<open>createIndices\<close> the mappings of the
  five multilingual text fields are built by \<^verbatim>\<open>getMultilingualTextProperties\<close>, with
  the completion mapping for the label and the aliases. Such a mapping has one sub-field
  per language of the table of stemmers, in the order of the table and each language
  once: a text field whose \<^verbatim>\<open>processed\<close> sub-field is a text field with the stemming
  analyzer of the table for that language.
\<close>

theorem mapping_has_one_subfield_per_stemmer_language:
  "js_path createIndices_request [''body'', ''mappings'', ''reviews'', ''properties'', ''text'']
     = getMultilingualTextProperties False
   \<and> js_path createIndices_request [''body'', ''mappings'', ''reviews'', ''properties'', ''title'']
     = getMultilingualTextProperties False
   \<and> js_path createIndices_request [''body'', ''mappings'', ''things'', ''properties'', ''label'']
     = getMultilingualTextProperties True
   \<and> js_path createIndices_request [''body'', ''mappings'', ''things'', ''properties'', ''aliases'']
     = getMultilingualTextProperties True
   \<and> js_path createIndices_request
       [''body'', ''mappings'', ''things'', ''properties'', ''description'']
     = getMultilingualTextProperties False
   \<and> js_keys (js_get (getMultilingualTextProperties c) ''properties'') = map fst analyzers
   \<and> distinct (map fst analyzers)
   \<and> (\<forall>(lang, an) \<in> set analyzers.
         js_path (getMultilingualTextProperties c) [''properties'', lang, ''type''] = Str ''text''
       \<and> js_path (getMultilingualTextProperties c) [''properties'', lang, ''analyzer'']
           = Undefined
       \<and> js_path (getMultilingualTextProperties c)
             [''properties'', lang, ''fields'', ''processed'', ''type''] = Str ''text''
       \<and> js_path (getMultilingualTextProperties c)
             [''properties'', lang, ''fields'', ''processed'', ''analyzer''] = Str an
       \<and> js_keys (js_path (getMultilingualTextProperties c) [''properties'', lang, ''fields''])
           = (if c then [''processed'', ''completion''] else [''processed'']))"
proof -
  have keys: "js_keys (js_get (getMultilingualTextProperties c) ''properties'') = map fst analyzers"
    by (simp add: properties_list comp_def)
  have entry: "js_path (getMultilingualTextProperties c) (''properties'' # lang # rest)
                 = js_path (languageProperty c lang) rest"
    if "(lang, an) \<in> set analyzers" for lang an rest
  proof -
    from that have "lang \<in> set (map fst analyzers)" by force
    then have "map_of (map (\<lambda>lang. (lang, languageProperty c lang)) (map fst analyzers)) lang
                 = Some (languageProperty c lang)"
      by (rule map_of_keyed)
    then show ?thesis by (simp add: properties_list js_path_def)
  qed
  have sub: "js_path (languageProperty c lang) [''type''] = Str ''text''
       \<and> js_path (languageProperty c lang) [''analyzer''] = Undefined
       \<and> js_path (languageProperty c lang) [''fields'', ''processed'', ''type''] = Str ''text''
       \<and> js_path (languageProperty c lang) [''fields'', ''processed'', ''analyzer''] = Str an
       \<and> js_keys (js_path (languageProperty c lang) [''fields''])
           = (if c then [''processed'', ''completion''] else [''processed''])"
    if "(lang, an) \<in> set analyzers" for lang an
    using analyzer_lookup [OF that] by (simp add: languageProperty_def js_path_def)
  have "\<forall>(lang, an) \<in> set analyzers.
         js_path (getMultilingualTextProperties c) [''properties'', lang, ''type''] = Str ''text''
       \<and> js_path (getMultilingualTextProperties c) [''properties'', lang, ''analyzer'']
           = Undefined
       \<and> js_path (getMultilingualTextProperties c)
             [''properties'', lang, ''fields'', ''processed'', ''type''] = Str ''text''
       \<and> js_path (getMultilingualTextProperties c)
             [''properties'', lang, ''fields'', ''processed'', ''analyzer''] = Str an
       \<and> js_keys (js_path (getMultilingualTextProperties c) [''properties'', lang, ''fields''])
           = (if c then [''processed'', ''completion''] else [''processed''])"
  proof (clarify)
    fix lang an assume m: "(lang, an) \<in> set analyzers"
    show "js_path (getMultilingualTextProperties c) [''properties'', lang, ''type''] = Str ''text''
       \<and> js_path (getMultilingualTextProperties c) [''properties'', lang, ''analyzer'']
           = Undefined
       \<and> js_path (getMultilingualTextProperties c)
             [''properties'', lang, ''fields'', ''processed'', ''type''] = Str ''text''
       \<and> js_path (getMultilingualTextProperties c)
             [''properties'', lang, ''fields'', ''processed'', ''analyzer''] = Str an
       \<and> js_keys (js_path (getMultilingualTextProperties c) [''properties'', lang, ''fields''])
           = (if c then [''processed'', ''completion''] else [''processed''])"
      unfolding entry [OF m] by (rule sub [OF m])
  qed
  with keys distinct_analyzers mapping_paths show ?thesis
    by blast
qed

theorem mapping_subfields_witness:
  "(''fr'', ''french'') \<in> set analyzers
   \<and> js_path (getMultilingualTextProperties True) [''properties'', ''fr'', ''type''] = Str ''text''
   \<and> js_path (getMultilingualTextProperties True)
        [''properties'', ''fr'', ''fields'', ''processed'', ''analyzer''] = Str ''french''
   \<and> js_keys (js_path (getMultilingualTextProperties True) [''properties'', ''fr'', ''fields''])
       = [''processed'', ''completion'']
   \<and> length (js_keys (js_get (getMultilingualTextProperties True) ''properties'')) = 34"
proof -
  have m: "(''fr'', ''french'') \<in> set analyzers"
    by (simp add: analyzers_def)
  note t = mapping_has_one_subfield_per_stemmer_language [of True]
  from t have k: "js_keys (js_get (getMultilingualTextProperties True) ''properties'')
                    = map fst analyzers"
    by blast
  have l: "length (map fst analyzers) = 34"
    by (simp add: analyzers_def)
  from t m have "js_path (getMultilingualTextProperties True) [''properties'', ''fr'', ''type'']
        = Str ''text''
     \<and> js_path (getMultilingualTextProperties True)
        [''properties'', ''fr'', ''fields'', ''processed'', ''analyzer''] = Str ''french''
     \<and> js_keys (js_path (getMultilingualTextProperties True) [''properties'', ''fr'', ''fields''])
       = (if True then [''processed'', ''completion''] else [''processed''])"
    by blast
  with m k l show ?thesis by simp
qed

text \<open>
  Claim C8 as stated fails wherever the display languages are not the languages of the
  table. The sub-fields follow the table of stemmers: for the display
  languages \<^verbatim>\<open>en\<close> and \<^verbatim>\<open>eo\<close> the mapping has no sub-field for \<^verbatim>\<open>eo\<close>, which has
  no stemmer, and it has one for \<^verbatim>\<open>ckb\<close>, which is not among them.
\<close>

theorem mapping_display_languages_counterexample:
  "js_get (js_get (getMultilingualTextProperties False) ''properties'') ''eo'' = Undefined
   \<and> js_get (js_get (getMultilingualTextProperties False) ''properties'') ''ckb'' \<noteq> Undefined
   \<and> ''ckb'' \<notin> set [''en'', ''eo'']
   \<and> set (js_keys (js_get (getMultilingualTextProperties False) ''properties''))
       \<noteq> set [''en'', ''eo'']"
proof -
  have k: "js_keys (js_get (getMultilingualTextProperties False) ''properties'') = map fst analyzers"
    by (simp add: properties_list comp_def)
  have a: "''eo'' \<notin> set (map fst analyzers)"
    by (simp add: analyzers_def)
  have b: "''ckb'' \<in> set (map fst analyzers)"
    by (simp add: analyzers_def)
  have "map_of (map (\<lambda>lang. (lang, languageProperty False lang)) (map fst analyzers)) ''eo'' = None"
    using a by (simp add: map_of_eq_None_iff image_image)
  then have e: "js_get (js_get (getMultilingualTextProperties False) ''properties'') ''eo''
                  = Undefined"
    by (simp add: properties_list)
  have "map_of (map (\<lambda>lang. (lang, languageProperty False lang)) (map fst analyzers)) ''ckb''
          = Some (languageProperty False ''ckb'')"
    using b by (rule map_of_keyed)
  then have c: "js_get (js_get (getMultilingualTextProperties False) ''properties'') ''ckb''
                  \<noteq> Undefined"
    by (simp add: properties_list languageProperty_def)
  have d: "set (map fst analyzers) \<noteq> set [''en'', ''eo'']"
    using a by auto
  from e c d k show ?thesis by simp
qed

end
